theory Spec2Isabelle
  imports Main "HOL-Library.Word"
begin

unbundle bit_operations_syntax

section \<open>Machine integers\<close>

type_synonym u8 = "8 word"
type_synonym u16 = "16 word"
type_synonym u32 = "32 word"
type_synonym u64 = "64 word"

section \<open>Scalar Kalman filter (kalman_filter.c)\<close>

text \<open>
  \<^verbatim>\<open>QUIC_KALMAN_FILTER\<close> of kalman_filter.h. The four \<^verbatim>\<open>double\<close> fields are kept
  over an arbitrary carrier \<open>'d\<close> with an addition: nothing below depends on how
  the addition rounds, so every statement holds for IEEE doubles as one instance.
\<close>

record 'd QUIC_KALMAN_FILTER =
  State :: 'd
  Covariance :: 'd
  ProcessNoise :: 'd
  MeasurementNoise :: 'd
  Initialized :: bool

definition QuicKalmanFilterInitialize ::
  "'d \<Rightarrow> 'd \<Rightarrow> 'd \<Rightarrow> 'd \<Rightarrow> 'd QUIC_KALMAN_FILTER" where
  "QuicKalmanFilterInitialize InitialState InitialCovariance ProcessNoise' MeasurementNoise' =
     \<lparr> State = InitialState, Covariance = InitialCovariance,
       ProcessNoise = ProcessNoise', MeasurementNoise = MeasurementNoise',
       Initialized = True \<rparr>"

definition QuicKalmanFilterReset ::
  "('d::{zero,one}) QUIC_KALMAN_FILTER \<Rightarrow> 'd QUIC_KALMAN_FILTER" where
  "QuicKalmanFilterReset Filter =
     Filter\<lparr> State := 0, Covariance := 1, Initialized := False \<rparr>"

definition QuicKalmanFilterGetEstimate :: "('d::zero) QUIC_KALMAN_FILTER \<Rightarrow> 'd" where
  "QuicKalmanFilterGetEstimate Filter =
     (if \<not> Initialized Filter then 0 else State Filter)"

definition QuicKalmanFilterPredict ::
  "('d::plus) QUIC_KALMAN_FILTER \<Rightarrow> 'd QUIC_KALMAN_FILTER" where
  "QuicKalmanFilterPredict Filter =
     (if \<not> Initialized Filter then Filter
      else Filter\<lparr> Covariance := Covariance Filter + ProcessNoise Filter \<rparr>)"

section \<open>Platform helpers and the sliding-window extremum\<close>

text \<open>
  Modelled from the spec: the platform time macros \<^verbatim>\<open>CxPlatTimeDiff64\<close>,
  \<^verbatim>\<open>CxPlatTimeAtOrBefore64\<close> and \<^verbatim>\<open>S_TO_US\<close> are not part of the sources at hand.
  The spec speaks of monotonic microsecond timestamps, of elapsed times as differences
  (\<open>send_elapsed = sent_time - last_acked_info.sent_time\<close>) and of expiry as
  \<open>min_rtt_timestamp + 10 s \<le> time_now\<close>.
\<close>

definition CxPlatTimeDiff64 :: "u64 \<Rightarrow> u64 \<Rightarrow> u64" where
  "CxPlatTimeDiff64 T1 T2 = T2 - T1"

definition CxPlatTimeAtOrBefore64 :: "u64 \<Rightarrow> u64 \<Rightarrow> bool" where
  "CxPlatTimeAtOrBefore64 T1 T2 \<longleftrightarrow> T1 \<le> T2"

definition S_TO_US :: "u32 \<Rightarrow> u32" where
  "S_TO_US s = s * 1000 * 1000"

text \<open>
  Modelled from the spec: the sliding-window extremum (\<^verbatim>\<open>QuicSlidingWindowExtremum*\<close>,
  spec section 4.4) is declared and implemented outside the sources at hand. It is a
  monotone deque of \<open>(value, time)\<close> pairs with a window length and a capacity;
  \<open>update_max\<close> pops from the back while the back's value is at most the new value,
  pushes, pops from the front while the front is older than \<open>time - window_len\<close>
  (strictly), and drops the oldest entry on overflow; \<open>get\<close> returns the front or
  nothing. The list below holds the deque front first.
\<close>

record QUIC_SLIDING_WINDOW_EXTREMUM_ENTRY =
  Value :: u64
  Time :: u64

record QUIC_SLIDING_WINDOW_EXTREMUM =
  WindowLength :: u64
  WindowCapacity :: nat
  Window :: "QUIC_SLIDING_WINDOW_EXTREMUM_ENTRY list"

definition QuicSlidingWindowExtremumInitialize ::
  "u64 \<Rightarrow> nat \<Rightarrow> QUIC_SLIDING_WINDOW_EXTREMUM" where
  "QuicSlidingWindowExtremumInitialize EntryLifetime Capacity =
     \<lparr> WindowLength = EntryLifetime, WindowCapacity = Capacity, Window = [] \<rparr>"

definition QuicSlidingWindowExtremumReset ::
  "QUIC_SLIDING_WINDOW_EXTREMUM \<Rightarrow> QUIC_SLIDING_WINDOW_EXTREMUM" where
  "QuicSlidingWindowExtremumReset w = w\<lparr> Window := [] \<rparr>"

definition QuicSlidingWindowExtremumGet ::
  "QUIC_SLIDING_WINDOW_EXTREMUM \<Rightarrow> QUIC_SLIDING_WINDOW_EXTREMUM_ENTRY option" where
  "QuicSlidingWindowExtremumGet w = (case Window w of [] \<Rightarrow> None | e # _ \<Rightarrow> Some e)"

definition pop_back_while ::
  "('a \<Rightarrow> bool) \<Rightarrow> 'a list \<Rightarrow> 'a list" where
  "pop_back_while P xs = rev (dropWhile P (rev xs))"

definition QuicSlidingWindowExtremumUpdateMax ::
  "QUIC_SLIDING_WINDOW_EXTREMUM \<Rightarrow> u64 \<Rightarrow> u64 \<Rightarrow> QUIC_SLIDING_WINDOW_EXTREMUM" where
  "QuicSlidingWindowExtremumUpdateMax w NewValue NewTime =
     (let popped = pop_back_while (\<lambda>e. Value e \<le> NewValue) (Window w);
          pushed = popped @ [\<lparr> Value = NewValue, Time = NewTime \<rparr>];
          fresh = dropWhile
                    (\<lambda>e. unat (Time e) + unat (WindowLength w) < unat NewTime) pushed;
          bounded = drop (length fresh - WindowCapacity w) fresh
      in w\<lparr> Window := bounded \<rparr>)"

section \<open>BBR: constants (bbr.c)\<close>

definition BW_UNIT :: u64 where "BW_UNIT = 8"

definition GAIN_UNIT :: u32 where "GAIN_UNIT = 256"

definition GAIN_CYCLE_LENGTH :: u32 where "GAIN_CYCLE_LENGTH = 8"

definition kQuantaFactor :: u64 where "kQuantaFactor = 3"

definition kMinCwndInMss :: u32 where "kMinCwndInMss = 4"

definition kDefaultRecoveryCwndInMss :: u32 where "kDefaultRecoveryCwndInMss = 2000"

definition kMicroSecsInSec :: u64 where "kMicroSecsInSec = 1000000"

definition kMilliSecsInSec :: u64 where "kMilliSecsInSec = 1000"

definition kLowPacingRateThresholdBytesPerSecond :: u64 where
  "kLowPacingRateThresholdBytesPerSecond = 1200 * 1000"

definition kHighPacingRateThresholdBytesPerSecond :: u64 where
  "kHighPacingRateThresholdBytesPerSecond = 24 * 1000 * 1000"

definition kHighGain :: u32 where "kHighGain = GAIN_UNIT * 2885 div 1000 + 1"

definition kDrainGain :: u32 where "kDrainGain = GAIN_UNIT * 1000 div 2885"

definition kCwndGain :: u32 where "kCwndGain = GAIN_UNIT * 2"

definition kStartupGrowthTarget :: u32 where "kStartupGrowthTarget = GAIN_UNIT * 5 div 4"

definition kStartupSlowGrowRoundLimit :: u8 where "kStartupSlowGrowRoundLimit = 3"

definition kPacingGain :: "u32 list" where
  "kPacingGain =
     [GAIN_UNIT * 5 div 4, GAIN_UNIT * 3 div 4,
      GAIN_UNIT, GAIN_UNIT, GAIN_UNIT,
      GAIN_UNIT, GAIN_UNIT, GAIN_UNIT]"

definition kProbeRttTimeInUs :: u32 where "kProbeRttTimeInUs = 200 * 1000"

definition kBbrMinRttExpirationInMicroSecs :: u32 where
  "kBbrMinRttExpirationInMicroSecs = S_TO_US 10"

definition kBbrMaxBandwidthFilterLen :: u32 where "kBbrMaxBandwidthFilterLen = 10"

definition kBbrMaxAckHeightFilterLen :: u32 where "kBbrMaxAckHeightFilterLen = 10"

definition UINT32_MAX :: u32 where "UINT32_MAX = 4294967295"

definition UINT64_MAX :: u64 where "UINT64_MAX = 18446744073709551615"

section \<open>BBR: data model\<close>

datatype BBR_STATE =
  BBR_STATE_STARTUP | BBR_STATE_DRAIN | BBR_STATE_PROBE_BW | BBR_STATE_PROBE_RTT

datatype RECOVERY_STATE =
  RECOVERY_STATE_NOT_RECOVERY | RECOVERY_STATE_CONSERVATIVE | RECOVERY_STATE_GROWTH

text \<open>
  What the controller reads from the enclosing connection: the datagram payload size of
  path 0, the pacing setting, the loss detection's largest sent packet number, and the
  build constant \<^verbatim>\<open>QUIC_SEND_PACING_INTERVAL\<close> (microseconds), whose value is not part
  of the sources at hand and is therefore carried as a parameter.
\<close>

record QUIC_CONNECTION =
  DatagramPayloadSize :: u16
  PacingEnabled :: bool
  LossDetection_LargestSentPacketNumber :: u64
  QUIC_SEND_PACING_INTERVAL :: u64

record QUIC_SETTINGS_INTERNAL =
  InitialWindowPackets :: u32

record QUIC_SENT_PACKET_METADATA =
  PacketNumber :: u64
  PacketLength :: u16
  SentTime :: u64
  TotalBytesSent :: u64
  Flags_HasLastAckedPacketInfo :: bool
  Flags_IsAppLimited :: bool
  LastAcked_SentTime :: u64
  LastAcked_AckTime :: u64
  LastAcked_AdjustedAckTime :: u64
  LastAcked_TotalBytesSent :: u64
  LastAcked_TotalBytesAcked :: u64

record QUIC_ACK_EVENT =
  Ack_TimeNow :: u64
  Ack_LargestAck :: u64
  Ack_LargestSentPacketNumber :: u64
  Ack_NumTotalAckedRetransmittableBytes :: u64
  Ack_AckedPackets :: "QUIC_SENT_PACKET_METADATA list"
  Ack_NumRetransmittableBytes :: u32
  Ack_MinRtt :: u64
  Ack_AdjustedAckTime :: u64
  Ack_IsImplicit :: bool
  Ack_HasLoss :: bool
  Ack_IsLargestAckedPacketAppLimited :: bool
  Ack_MinRttValid :: bool

record QUIC_LOSS_EVENT =
  Loss_LargestPacketNumberLost :: u64
  Loss_LargestSentPacketNumber :: u64
  Loss_NumRetransmittableBytes :: u32
  Loss_PersistentCongestion :: bool

record BBR_BANDWIDTH_FILTER =
  WindowedMaxFilter :: QUIC_SLIDING_WINDOW_EXTREMUM
  AppLimited :: bool
  AppLimitedExitTarget :: u64

text \<open>
  \<^verbatim>\<open>QUIC_CONGESTION_CONTROL_BBR\<close>. The fields that only feed the text log
  (\<^verbatim>\<open>Recent*\<close>, \<^verbatim>\<open>LastLogged*\<close>, \<^verbatim>\<open>LastPeriodicLogTime\<close>) are written from the wall
  clock and the connection statistics and are read by no control decision; they are
  not part of the state below.
\<close>

record QUIC_CONGESTION_CONTROL_BBR =
  InitialCongestionWindowPackets :: u32
  CongestionWindow :: u32
  InitialCongestionWindow :: u32
  RecoveryWindow :: u32
  BytesInFlightMax :: u32
  BytesInFlight :: u32
  Exemptions :: u8
  RecoveryState :: RECOVERY_STATE
  BbrState :: BBR_STATE
  RoundTripCounter :: u64
  CwndGain :: u32
  PacingGain :: u32
  BtlbwFound :: bool
  SendQuantum :: u64
  SlowStartupRoundCounter :: u8
  PacingCycleIndex :: u32
  AggregatedAckBytes :: u64
  ExitingQuiescence :: bool
  LastEstimatedStartupBandwidth :: u64
  CycleStart :: u64
  AckAggregationStartTimeValid :: bool
  AckAggregationStartTime :: u64
  EndOfRecoveryValid :: bool
  EndOfRecovery :: u64
  ProbeRttRoundValid :: bool
  ProbeRttRound :: u64
  EndOfRoundTripValid :: bool
  EndOfRoundTrip :: u64
  ProbeRttEndTimeValid :: bool
  ProbeRttEndTime :: u64
  RttSampleExpired :: bool
  MinRttTimestampValid :: bool
  MinRtt :: u64
  MinRttTimestamp :: u64
  MaxAckHeightFilter :: QUIC_SLIDING_WINDOW_EXTREMUM
  BandwidthFilter :: BBR_BANDWIDTH_FILTER

section \<open>BBR: bandwidth filter\<close>

text \<open>
  The send rate and the ack rate of one acked packet (the body of the loop of
  \<^verbatim>\<open>BbrBandwidthFilterOnPacketAcked\<close>), each \<open>UINT64_MAX\<close> while undefined.
\<close>

definition BbrPacketSendRate :: "QUIC_ACK_EVENT \<Rightarrow> QUIC_SENT_PACKET_METADATA \<Rightarrow> u64" where
  "BbrPacketSendRate AckEvent AckedPacket =
     (if Flags_HasLastAckedPacketInfo AckedPacket then
        (let SendElapsed =
               CxPlatTimeDiff64 (LastAcked_SentTime AckedPacket) (SentTime AckedPacket)
         in if SendElapsed \<noteq> 0
            then kMicroSecsInSec * BW_UNIT *
                   (TotalBytesSent AckedPacket - LastAcked_TotalBytesSent AckedPacket)
                 div SendElapsed
            else UINT64_MAX)
      else if \<not> CxPlatTimeAtOrBefore64 (Ack_TimeNow AckEvent) (SentTime AckedPacket) then
        kMicroSecsInSec * BW_UNIT * Ack_NumTotalAckedRetransmittableBytes AckEvent
          div CxPlatTimeDiff64 (SentTime AckedPacket) (Ack_TimeNow AckEvent)
      else UINT64_MAX)"

definition BbrPacketAckRate :: "QUIC_ACK_EVENT \<Rightarrow> QUIC_SENT_PACKET_METADATA \<Rightarrow> u64" where
  "BbrPacketAckRate AckEvent AckedPacket =
     (if Flags_HasLastAckedPacketInfo AckedPacket then
        (let AckElapsed =
               (if \<not> CxPlatTimeAtOrBefore64 (Ack_AdjustedAckTime AckEvent)
                        (LastAcked_AdjustedAckTime AckedPacket)
                then CxPlatTimeDiff64 (LastAcked_AdjustedAckTime AckedPacket)
                       (Ack_AdjustedAckTime AckEvent)
                else CxPlatTimeDiff64 (LastAcked_AckTime AckedPacket) (Ack_TimeNow AckEvent))
         in if AckElapsed \<noteq> 0
            then kMicroSecsInSec * BW_UNIT *
                   (Ack_NumTotalAckedRetransmittableBytes AckEvent
                      - LastAcked_TotalBytesAcked AckedPacket)
                 div AckElapsed
            else UINT64_MAX)
      else UINT64_MAX)"

text \<open>
  The delivery rate of one acked packet: \<open>None\<close> where the loop body reaches a
  \<^verbatim>\<open>continue\<close> (zero packet length, or neither rate defined).
\<close>

definition BbrPacketDeliveryRate ::
  "QUIC_ACK_EVENT \<Rightarrow> QUIC_SENT_PACKET_METADATA \<Rightarrow> u64 option" where
  "BbrPacketDeliveryRate AckEvent AckedPacket =
     (if PacketLength AckedPacket = 0 then None
      else let SendRate = BbrPacketSendRate AckEvent AckedPacket;
               AckRate = BbrPacketAckRate AckEvent AckedPacket
           in if SendRate = UINT64_MAX \<and> AckRate = UINT64_MAX then None
              else Some (min SendRate AckRate))"

definition BbrBandwidthFilterPreviousMax :: "BBR_BANDWIDTH_FILTER \<Rightarrow> u64" where
  "BbrBandwidthFilterPreviousMax b =
     (case QuicSlidingWindowExtremumGet (WindowedMaxFilter b) of
        Some Entry \<Rightarrow> Value Entry
      | None \<Rightarrow> 0)"

definition BbrBandwidthFilterOnOnePacket ::
  "QUIC_ACK_EVENT \<Rightarrow> u64 \<Rightarrow> QUIC_SENT_PACKET_METADATA \<Rightarrow> BBR_BANDWIDTH_FILTER
     \<Rightarrow> BBR_BANDWIDTH_FILTER" where
  "BbrBandwidthFilterOnOnePacket AckEvent RttCounter AckedPacket b =
     (case BbrPacketDeliveryRate AckEvent AckedPacket of
        None \<Rightarrow> b
      | Some DeliveryRate \<Rightarrow>
          (let PreviousMaxDeliveryRate = BbrBandwidthFilterPreviousMax b
           in if DeliveryRate \<ge> PreviousMaxDeliveryRate \<or> \<not> Flags_IsAppLimited AckedPacket
              then b\<lparr> WindowedMaxFilter :=
                        QuicSlidingWindowExtremumUpdateMax (WindowedMaxFilter b)
                          DeliveryRate RttCounter \<rparr>
              else b))"

fun BbrBandwidthFilterLoop ::
  "QUIC_ACK_EVENT \<Rightarrow> u64 \<Rightarrow> QUIC_SENT_PACKET_METADATA list \<Rightarrow> BBR_BANDWIDTH_FILTER
     \<Rightarrow> BBR_BANDWIDTH_FILTER" where
  "BbrBandwidthFilterLoop AckEvent RttCounter [] b = b"
| "BbrBandwidthFilterLoop AckEvent RttCounter (AckedPacket # rest) b =
     BbrBandwidthFilterLoop AckEvent RttCounter rest
       (BbrBandwidthFilterOnOnePacket AckEvent RttCounter AckedPacket b)"

definition BbrBandwidthFilterOnPacketAcked ::
  "BBR_BANDWIDTH_FILTER \<Rightarrow> QUIC_ACK_EVENT \<Rightarrow> u64 \<Rightarrow> BBR_BANDWIDTH_FILTER" where
  "BbrBandwidthFilterOnPacketAcked b AckEvent RttCounter =
     BbrBandwidthFilterLoop AckEvent RttCounter (Ack_AckedPackets AckEvent)
       (if AppLimited b \<and> AppLimitedExitTarget b < Ack_LargestAck AckEvent
        then b\<lparr> AppLimited := False \<rparr> else b)"

section \<open>BBR: queries\<close>

definition BbrCongestionControlGetBandwidth :: "QUIC_CONGESTION_CONTROL_BBR \<Rightarrow> u64" where
  "BbrCongestionControlGetBandwidth Bbr =
     (case QuicSlidingWindowExtremumGet (WindowedMaxFilter (BandwidthFilter Bbr)) of
        Some Entry \<Rightarrow> Value Entry
      | None \<Rightarrow> 0)"

definition BbrCongestionControlInRecovery :: "QUIC_CONGESTION_CONTROL_BBR \<Rightarrow> bool" where
  "BbrCongestionControlInRecovery Bbr \<longleftrightarrow> RecoveryState Bbr \<noteq> RECOVERY_STATE_NOT_RECOVERY"

text \<open>\<^verbatim>\<open>kMinCwndInMss * DatagramPayloadLength\<close>, computed afresh wherever the source needs it.\<close>

definition MinCongestionWindow :: "QUIC_CONNECTION \<Rightarrow> u32" where
  "MinCongestionWindow Connection = kMinCwndInMss * ucast (DatagramPayloadSize Connection)"

definition BbrCongestionControlGetCongestionWindow ::
  "QUIC_CONNECTION \<Rightarrow> QUIC_CONGESTION_CONTROL_BBR \<Rightarrow> u32" where
  "BbrCongestionControlGetCongestionWindow Connection Bbr =
     (if BbrState Bbr = BBR_STATE_PROBE_RTT then MinCongestionWindow Connection
      else if BbrCongestionControlInRecovery Bbr
           then min (CongestionWindow Bbr) (RecoveryWindow Bbr)
      else CongestionWindow Bbr)"

definition BbrCongestionControlIsAppLimited :: "QUIC_CONGESTION_CONTROL_BBR \<Rightarrow> bool" where
  "BbrCongestionControlIsAppLimited Bbr = AppLimited (BandwidthFilter Bbr)"

definition BbrCongestionControlCanSend ::
  "QUIC_CONNECTION \<Rightarrow> QUIC_CONGESTION_CONTROL_BBR \<Rightarrow> bool" where
  "BbrCongestionControlCanSend Connection Bbr \<longleftrightarrow>
     BytesInFlight Bbr < BbrCongestionControlGetCongestionWindow Connection Bbr
     \<or> Exemptions Bbr > 0"

text \<open>
  The return value of \<^verbatim>\<open>BbrCongestionControlUpdateBlockedState\<close>: whether the controller
  became unblocked. Its other effects (flow-blocked reasons, last flush time) are on the
  connection, not on the controller.
\<close>

definition BbrCongestionControlUpdateBlockedState ::
  "QUIC_CONNECTION \<Rightarrow> QUIC_CONGESTION_CONTROL_BBR \<Rightarrow> bool \<Rightarrow> bool" where
  "BbrCongestionControlUpdateBlockedState Connection Bbr PreviousCanSendState =
     (if PreviousCanSendState \<noteq> BbrCongestionControlCanSend Connection Bbr
      then (if PreviousCanSendState then False else True)
      else False)"

definition BbrCongestionControlGetBytesInFlightMax :: "QUIC_CONGESTION_CONTROL_BBR \<Rightarrow> u32" where
  "BbrCongestionControlGetBytesInFlightMax Bbr = BytesInFlightMax Bbr"

definition BbrCongestionControlGetExemptions :: "QUIC_CONGESTION_CONTROL_BBR \<Rightarrow> u8" where
  "BbrCongestionControlGetExemptions Bbr = Exemptions Bbr"

definition BbrCongestionControlGetTargetCwnd :: "QUIC_CONGESTION_CONTROL_BBR \<Rightarrow> u32 \<Rightarrow> u32" where
  "BbrCongestionControlGetTargetCwnd Bbr Gain =
     (let BandwidthEst = BbrCongestionControlGetBandwidth Bbr
      in if BandwidthEst = 0 \<or> MinRtt Bbr = ucast UINT32_MAX
         then ucast ((ucast Gain :: u64) * ucast (InitialCongestionWindow Bbr)
                       div ucast GAIN_UNIT)
         else let Bdp = BandwidthEst * MinRtt Bbr div kMicroSecsInSec div BW_UNIT;
                  TargetCwnd = (Bdp * ucast Gain div ucast GAIN_UNIT)
                                 + (kQuantaFactor * SendQuantum Bbr)
              in ucast TargetCwnd)"

definition BbrCongestionControlGetSendAllowance ::
  "QUIC_CONNECTION \<Rightarrow> QUIC_CONGESTION_CONTROL_BBR \<Rightarrow> u64 \<Rightarrow> bool \<Rightarrow> u32" where
  "BbrCongestionControlGetSendAllowance Connection Bbr TimeSinceLastSend TimeSinceLastSendValid =
     (let BandwidthEst = BbrCongestionControlGetBandwidth Bbr;
          CongestionWindow' = BbrCongestionControlGetCongestionWindow Connection Bbr
      in if BytesInFlight Bbr \<ge> CongestionWindow' then 0
         else if \<not> TimeSinceLastSendValid \<or>
                 \<not> PacingEnabled Connection \<or>
                 MinRtt Bbr = ucast UINT32_MAX \<or>
                 MinRtt Bbr < QUIC_SEND_PACING_INTERVAL Connection
         then CongestionWindow' - BytesInFlight Bbr
         else
           (let SendAllowance0 =
                  (if BbrState Bbr = BBR_STATE_STARTUP
                   then (ucast (max
                           (BandwidthEst * ucast (PacingGain Bbr) * TimeSinceLastSend
                              div ucast GAIN_UNIT)
                           (ucast (CongestionWindow' * PacingGain Bbr div GAIN_UNIT
                                     - BytesInFlight Bbr) :: u64)) :: u32)
                   else ucast (BandwidthEst * ucast (PacingGain Bbr) * TimeSinceLastSend
                                 div ucast GAIN_UNIT));
                SendAllowance1 =
                  (if SendAllowance0 > CongestionWindow' - BytesInFlight Bbr
                   then CongestionWindow' - BytesInFlight Bbr else SendAllowance0)
            in if SendAllowance1 > drop_bit 2 CongestionWindow'
               then drop_bit 2 CongestionWindow' else SendAllowance1))"

section \<open>BBR: state transitions\<close>

text \<open>
  \<^verbatim>\<open>CxPlatRandom\<close> is the only source of nondeterminism; the 32-bit value it would
  deliver is passed in as \<open>RandomValue\<close>.
\<close>

definition BbrCongestionControlTransitToProbeBw ::
  "QUIC_CONGESTION_CONTROL_BBR \<Rightarrow> u64 \<Rightarrow> u32 \<Rightarrow> QUIC_CONGESTION_CONTROL_BBR" where
  "BbrCongestionControlTransitToProbeBw Bbr CongestionEventTime RandomValue =
     (let Index = (RandomValue mod (GAIN_CYCLE_LENGTH - 1) + 2) mod GAIN_CYCLE_LENGTH
      in Bbr\<lparr> BbrState := BBR_STATE_PROBE_BW,
               CwndGain := kCwndGain,
               PacingCycleIndex := Index,
               PacingGain := kPacingGain ! unat Index,
               CycleStart := CongestionEventTime \<rparr>)"

definition BbrCongestionControlTransitToStartup ::
  "QUIC_CONGESTION_CONTROL_BBR \<Rightarrow> QUIC_CONGESTION_CONTROL_BBR" where
  "BbrCongestionControlTransitToStartup Bbr =
     Bbr\<lparr> BbrState := BBR_STATE_STARTUP, PacingGain := kHighGain, CwndGain := kHighGain \<rparr>"

definition BbrCongestionControlTransitToProbeRtt ::
  "QUIC_CONGESTION_CONTROL_BBR \<Rightarrow> u64 \<Rightarrow> QUIC_CONGESTION_CONTROL_BBR" where
  "BbrCongestionControlTransitToProbeRtt Bbr LargestSentPacketNumber =
     Bbr\<lparr> BbrState := BBR_STATE_PROBE_RTT,
          PacingGain := GAIN_UNIT,
          ProbeRttEndTimeValid := False,
          ProbeRttRoundValid := False,
          BandwidthFilter := (BandwidthFilter Bbr)
            \<lparr> AppLimited := True, AppLimitedExitTarget := LargestSentPacketNumber \<rparr> \<rparr>"

definition BbrCongestionControlTransitToDrain ::
  "QUIC_CONGESTION_CONTROL_BBR \<Rightarrow> QUIC_CONGESTION_CONTROL_BBR" where
  "BbrCongestionControlTransitToDrain Bbr =
     Bbr\<lparr> BbrState := BBR_STATE_DRAIN, PacingGain := kDrainGain, CwndGain := kHighGain \<rparr>"

section \<open>BBR: send-side events\<close>

definition BbrCongestionControlSetExemption ::
  "QUIC_CONGESTION_CONTROL_BBR \<Rightarrow> u8 \<Rightarrow> QUIC_CONGESTION_CONTROL_BBR" where
  "BbrCongestionControlSetExemption Bbr NumPackets = Bbr\<lparr> Exemptions := NumPackets \<rparr>"

definition BbrCongestionControlOnDataSent ::
  "QUIC_CONNECTION \<Rightarrow> QUIC_CONGESTION_CONTROL_BBR \<Rightarrow> u32 \<Rightarrow> QUIC_CONGESTION_CONTROL_BBR" where
  "BbrCongestionControlOnDataSent Connection Bbr NumRetransmittableBytes =
     (let b1 = (if BytesInFlight Bbr = 0 \<and> BbrCongestionControlIsAppLimited Bbr
                then Bbr\<lparr> ExitingQuiescence := True \<rparr> else Bbr);
          b2 = b1\<lparr> BytesInFlight := BytesInFlight b1 + NumRetransmittableBytes \<rparr>;
          b3 = (if BytesInFlightMax b2 < BytesInFlight b2
                then b2\<lparr> BytesInFlightMax := BytesInFlight b2 \<rparr> else b2)
      in if Exemptions b3 > 0 then b3\<lparr> Exemptions := Exemptions b3 - 1 \<rparr> else b3)"

definition BbrCongestionControlOnDataInvalidated ::
  "QUIC_CONNECTION \<Rightarrow> QUIC_CONGESTION_CONTROL_BBR \<Rightarrow> u32
     \<Rightarrow> QUIC_CONGESTION_CONTROL_BBR \<times> bool" where
  "BbrCongestionControlOnDataInvalidated Connection Bbr NumRetransmittableBytes =
     (let PreviousCanSendState = BbrCongestionControlCanSend Connection Bbr;
          b1 = Bbr\<lparr> BytesInFlight := BytesInFlight Bbr - NumRetransmittableBytes \<rparr>
      in (b1, BbrCongestionControlUpdateBlockedState Connection b1 PreviousCanSendState))"

section \<open>BBR: helpers of the acknowledgement path\<close>

definition BbrCongestionControlUpdateRecoveryWindow ::
  "QUIC_CONNECTION \<Rightarrow> QUIC_CONGESTION_CONTROL_BBR \<Rightarrow> u32 \<Rightarrow> QUIC_CONGESTION_CONTROL_BBR" where
  "BbrCongestionControlUpdateRecoveryWindow Connection Bbr BytesAcked =
     (let b1 = (if RecoveryState Bbr = RECOVERY_STATE_GROWTH
                then Bbr\<lparr> RecoveryWindow := RecoveryWindow Bbr + BytesAcked \<rparr> else Bbr);
          RecoveryWindow' = max (RecoveryWindow b1) (BytesInFlight b1 + BytesAcked)
      in b1\<lparr> RecoveryWindow := max RecoveryWindow' (MinCongestionWindow Connection) \<rparr>)"

definition BbrCongestionControlHandleAckInProbeRtt ::
  "QUIC_CONNECTION \<Rightarrow> QUIC_CONGESTION_CONTROL_BBR \<Rightarrow> bool \<Rightarrow> u64 \<Rightarrow> u64 \<Rightarrow> u32
     \<Rightarrow> QUIC_CONGESTION_CONTROL_BBR" where
  "BbrCongestionControlHandleAckInProbeRtt Connection Bbr NewRoundTrip
       LargestSentPacketNumber AckTime RandomValue =
     (let b1 = Bbr\<lparr> BandwidthFilter := (BandwidthFilter Bbr)
                 \<lparr> AppLimited := True, AppLimitedExitTarget := LargestSentPacketNumber \<rparr> \<rparr>
      in if \<not> ProbeRttEndTimeValid b1 \<and>
            BytesInFlight b1 <
              BbrCongestionControlGetCongestionWindow Connection b1
                + ucast (DatagramPayloadSize Connection)
         then b1\<lparr> ProbeRttEndTime := AckTime + ucast kProbeRttTimeInUs,
                   ProbeRttEndTimeValid := True,
                   ProbeRttRoundValid := False \<rparr>
         else if ProbeRttEndTimeValid b1
         then (let b2 = (if \<not> ProbeRttRoundValid b1 \<and> NewRoundTrip
                         then b1\<lparr> ProbeRttRoundValid := True,
                                   ProbeRttRound := RoundTripCounter b1 \<rparr>
                         else b1)
               in if ProbeRttRoundValid b2 \<and>
                     CxPlatTimeAtOrBefore64 (ProbeRttEndTime b2) AckTime
                  then (let b3 = b2\<lparr> MinRttTimestamp := AckTime,
                                       MinRttTimestampValid := True \<rparr>
                        in if BtlbwFound b3
                           then BbrCongestionControlTransitToProbeBw b3 AckTime RandomValue
                           else BbrCongestionControlTransitToStartup b3)
                  else b2)
         else b1)"

definition BbrCongestionControlUpdateAckAggregation ::
  "QUIC_CONGESTION_CONTROL_BBR \<Rightarrow> QUIC_ACK_EVENT \<Rightarrow> QUIC_CONGESTION_CONTROL_BBR \<times> u64" where
  "BbrCongestionControlUpdateAckAggregation Bbr AckEvent =
     (if \<not> AckAggregationStartTimeValid Bbr
      then (Bbr\<lparr> AckAggregationStartTime := Ack_TimeNow AckEvent,
                 AckAggregationStartTimeValid := True \<rparr>, 0)
      else
        (let ExpectedAckBytes =
               BbrCongestionControlGetBandwidth Bbr *
                 CxPlatTimeDiff64 (AckAggregationStartTime Bbr) (Ack_TimeNow AckEvent)
                 div kMicroSecsInSec div BW_UNIT
         in if AggregatedAckBytes Bbr \<le> ExpectedAckBytes
            then (Bbr\<lparr> AggregatedAckBytes := ucast (Ack_NumRetransmittableBytes AckEvent),
                       AckAggregationStartTime := Ack_TimeNow AckEvent,
                       AckAggregationStartTimeValid := True \<rparr>, 0)
            else
              (let b1 = Bbr\<lparr> AggregatedAckBytes :=
                              AggregatedAckBytes Bbr
                                + ucast (Ack_NumRetransmittableBytes AckEvent) \<rparr>;
                   b2 = b1\<lparr> MaxAckHeightFilter :=
                             QuicSlidingWindowExtremumUpdateMax (MaxAckHeightFilter b1)
                               (AggregatedAckBytes b1 - ExpectedAckBytes)
                               (RoundTripCounter b1) \<rparr>
               in (b2, AggregatedAckBytes b2 - ExpectedAckBytes))))"

definition BbrCongestionControlSetSendQuantum ::
  "QUIC_CONNECTION \<Rightarrow> QUIC_CONGESTION_CONTROL_BBR \<Rightarrow> QUIC_CONGESTION_CONTROL_BBR" where
  "BbrCongestionControlSetSendQuantum Connection Bbr =
     (let Bandwidth = BbrCongestionControlGetBandwidth Bbr;
          PacingRate = Bandwidth * ucast (PacingGain Bbr) div ucast GAIN_UNIT;
          DatagramPayloadLength = DatagramPayloadSize Connection
      in if PacingRate < kLowPacingRateThresholdBytesPerSecond * BW_UNIT
         then Bbr\<lparr> SendQuantum := ucast DatagramPayloadLength \<rparr>
         else if PacingRate < kHighPacingRateThresholdBytesPerSecond * BW_UNIT
         then Bbr\<lparr> SendQuantum := ucast DatagramPayloadLength * 2 \<rparr>
         else Bbr\<lparr> SendQuantum :=
                      min (PacingRate * kMilliSecsInSec div BW_UNIT) (64 * 1024) \<rparr>)"

definition BbrCongestionControlUpdateCongestionWindow ::
  "QUIC_CONNECTION \<Rightarrow> QUIC_CONGESTION_CONTROL_BBR \<Rightarrow> u64 \<Rightarrow> u64
     \<Rightarrow> QUIC_CONGESTION_CONTROL_BBR" where
  "BbrCongestionControlUpdateCongestionWindow Connection Bbr TotalBytesAcked AckedBytes =
     (if BbrState Bbr = BBR_STATE_PROBE_RTT then Bbr
      else
        (let b1 = BbrCongestionControlSetSendQuantum Connection Bbr;
             TargetCwnd0 = (ucast (BbrCongestionControlGetTargetCwnd b1 (CwndGain b1)) :: u64);
             TargetCwnd =
               (if BtlbwFound b1
                then (case QuicSlidingWindowExtremumGet (MaxAckHeightFilter b1) of
                        Some Entry \<Rightarrow> TargetCwnd0 + Value Entry
                      | None \<Rightarrow> TargetCwnd0)
                else TargetCwnd0);
             CongestionWindow0 = CongestionWindow b1;
             CongestionWindow1 =
               (if BtlbwFound b1
                then ucast (min TargetCwnd (ucast CongestionWindow0 + AckedBytes))
                else if ucast CongestionWindow0 < TargetCwnd \<or>
                        TotalBytesAcked < ucast (InitialCongestionWindow b1)
                then CongestionWindow0 + ucast AckedBytes
                else CongestionWindow0)
         in b1\<lparr> CongestionWindow :=
                   max CongestionWindow1 (MinCongestionWindow Connection) \<rparr>))"

section \<open>BBR: acknowledgements\<close>

text \<open>
  The blocks of \<^verbatim>\<open>BbrCongestionControlOnDataAcknowledged\<close>, in source order, each as a
  function of its own; the function itself chains them.
\<close>

definition AckMinRttUpdate ::
  "QUIC_CONGESTION_CONTROL_BBR \<Rightarrow> QUIC_ACK_EVENT \<Rightarrow> QUIC_CONGESTION_CONTROL_BBR" where
  "AckMinRttUpdate Bbr AckEvent =
     (if Ack_MinRttValid AckEvent then
        (let b1 = Bbr\<lparr> RttSampleExpired :=
                     (if MinRttTimestampValid Bbr
                      then CxPlatTimeAtOrBefore64
                             (MinRttTimestamp Bbr + ucast kBbrMinRttExpirationInMicroSecs)
                             (Ack_TimeNow AckEvent)
                      else False) \<rparr>
         in if RttSampleExpired b1 \<or> MinRtt b1 > Ack_MinRtt AckEvent
            then b1\<lparr> MinRtt := Ack_MinRtt AckEvent,
                      MinRttTimestamp := Ack_TimeNow AckEvent,
                      MinRttTimestampValid := True \<rparr>
            else b1)
      else Bbr)"

definition AckIsNewRoundTrip :: "QUIC_CONGESTION_CONTROL_BBR \<Rightarrow> QUIC_ACK_EVENT \<Rightarrow> bool" where
  "AckIsNewRoundTrip Bbr AckEvent \<longleftrightarrow>
     \<not> EndOfRoundTripValid Bbr \<or> EndOfRoundTrip Bbr < Ack_LargestAck AckEvent"

definition AckRoundTripUpdate ::
  "QUIC_CONGESTION_CONTROL_BBR \<Rightarrow> QUIC_ACK_EVENT \<Rightarrow> QUIC_CONGESTION_CONTROL_BBR" where
  "AckRoundTripUpdate Bbr AckEvent =
     (if AckIsNewRoundTrip Bbr AckEvent
      then Bbr\<lparr> RoundTripCounter := RoundTripCounter Bbr + 1,
                EndOfRoundTripValid := True,
                EndOfRoundTrip := Ack_LargestSentPacketNumber AckEvent \<rparr>
      else Bbr)"

definition AckRecoveryUpdate ::
  "QUIC_CONNECTION \<Rightarrow> QUIC_CONGESTION_CONTROL_BBR \<Rightarrow> QUIC_ACK_EVENT \<Rightarrow> bool
     \<Rightarrow> QUIC_CONGESTION_CONTROL_BBR" where
  "AckRecoveryUpdate Connection Bbr AckEvent NewRoundTrip =
     (if BbrCongestionControlInRecovery Bbr then
        (let b1 = (if NewRoundTrip \<and> RecoveryState Bbr \<noteq> RECOVERY_STATE_GROWTH
                   then Bbr\<lparr> RecoveryState := RECOVERY_STATE_GROWTH \<rparr> else Bbr)
         in if \<not> Ack_HasLoss AckEvent \<and> EndOfRecovery b1 < Ack_LargestAck AckEvent
            then b1\<lparr> RecoveryState := RECOVERY_STATE_NOT_RECOVERY \<rparr>
            else BbrCongestionControlUpdateRecoveryWindow Connection b1
                   (Ack_NumRetransmittableBytes AckEvent))
      else Bbr)"

definition AckProbeBwCycle ::
  "QUIC_CONGESTION_CONTROL_BBR \<Rightarrow> QUIC_ACK_EVENT \<Rightarrow> u32 \<Rightarrow> QUIC_CONGESTION_CONTROL_BBR" where
  "AckProbeBwCycle Bbr AckEvent PrevInflightBytes =
     (if BbrState Bbr = BBR_STATE_PROBE_BW then
        (let Advance0 =
               (CxPlatTimeDiff64 (Ack_TimeNow AckEvent) (CycleStart Bbr) > MinRtt Bbr);
             Advance1 =
               (if PacingGain Bbr > GAIN_UNIT \<and> \<not> Ack_HasLoss AckEvent \<and>
                   PrevInflightBytes < BbrCongestionControlGetTargetCwnd Bbr (PacingGain Bbr)
                then False else Advance0);
             ShouldAdvancePacingGainCycle =
               (if PacingGain Bbr < GAIN_UNIT
                then (let TargetCwnd =
                            (ucast (BbrCongestionControlGetTargetCwnd Bbr GAIN_UNIT) :: u64)
                      in if ucast (BytesInFlight Bbr) \<le> TargetCwnd then True else Advance1)
                else Advance1)
         in if ShouldAdvancePacingGainCycle
            then (let Index = (PacingCycleIndex Bbr + 1) mod GAIN_CYCLE_LENGTH
                  in Bbr\<lparr> PacingCycleIndex := Index,
                           CycleStart := Ack_TimeNow AckEvent,
                           PacingGain := kPacingGain ! unat Index \<rparr>)
            else Bbr)
      else Bbr)"

definition AckStartupExitDetection ::
  "QUIC_CONGESTION_CONTROL_BBR \<Rightarrow> bool \<Rightarrow> bool \<Rightarrow> QUIC_CONGESTION_CONTROL_BBR" where
  "AckStartupExitDetection Bbr NewRoundTrip LastAckedPacketAppLimited =
     (if \<not> BtlbwFound Bbr \<and> NewRoundTrip \<and> \<not> LastAckedPacketAppLimited then
        (let BandwidthTarget =
               LastEstimatedStartupBandwidth Bbr * ucast kStartupGrowthTarget
                 div ucast GAIN_UNIT;
             CurrentBandwidth = BbrCongestionControlGetBandwidth Bbr
         in if CurrentBandwidth \<ge> BandwidthTarget
            then Bbr\<lparr> LastEstimatedStartupBandwidth := CurrentBandwidth,
                      SlowStartupRoundCounter := 0 \<rparr>
            else (let b1 = Bbr\<lparr> SlowStartupRoundCounter := SlowStartupRoundCounter Bbr + 1 \<rparr>
                  in if SlowStartupRoundCounter b1 \<ge> kStartupSlowGrowRoundLimit
                     then b1\<lparr> BtlbwFound := True \<rparr> else b1))
      else Bbr)"

definition AckPhaseTransitions ::
  "QUIC_CONGESTION_CONTROL_BBR \<Rightarrow> QUIC_ACK_EVENT \<Rightarrow> u32 \<Rightarrow> QUIC_CONGESTION_CONTROL_BBR" where
  "AckPhaseTransitions Bbr AckEvent RandomValue =
     (let b1 = (if BbrState Bbr = BBR_STATE_STARTUP \<and> BtlbwFound Bbr
                then BbrCongestionControlTransitToDrain Bbr else Bbr);
          b2 = (if BbrState b1 = BBR_STATE_DRAIN \<and>
                   BytesInFlight b1 \<le> BbrCongestionControlGetTargetCwnd b1 GAIN_UNIT
                then BbrCongestionControlTransitToProbeBw b1 (Ack_TimeNow AckEvent) RandomValue
                else b1);
          b3 = (if BbrState b2 \<noteq> BBR_STATE_PROBE_RTT \<and>
                   \<not> ExitingQuiescence b2 \<and> RttSampleExpired b2
                then BbrCongestionControlTransitToProbeRtt b2
                       (Ack_LargestSentPacketNumber AckEvent)
                else b2)
      in b3\<lparr> ExitingQuiescence := False \<rparr>)"

definition BbrCongestionControlOnDataAcknowledged ::
  "QUIC_CONNECTION \<Rightarrow> QUIC_CONGESTION_CONTROL_BBR \<Rightarrow> QUIC_ACK_EVENT \<Rightarrow> u32
     \<Rightarrow> QUIC_CONGESTION_CONTROL_BBR \<times> bool" where
  "BbrCongestionControlOnDataAcknowledged Connection Bbr AckEvent RandomValue =
     (let PreviousCanSendState = BbrCongestionControlCanSend Connection Bbr
      in if Ack_IsImplicit AckEvent then
           (let b1 = BbrCongestionControlUpdateCongestionWindow Connection Bbr
                       (Ack_NumTotalAckedRetransmittableBytes AckEvent)
                       (ucast (Ack_NumRetransmittableBytes AckEvent))
            in (b1, BbrCongestionControlUpdateBlockedState Connection b1 PreviousCanSendState))
         else
           (let PrevInflightBytes = BytesInFlight Bbr;
                b1 = Bbr\<lparr> BytesInFlight :=
                            BytesInFlight Bbr - Ack_NumRetransmittableBytes AckEvent \<rparr>;
                b2 = AckMinRttUpdate b1 AckEvent;
                NewRoundTrip = AckIsNewRoundTrip b2 AckEvent;
                b3 = AckRoundTripUpdate b2 AckEvent;
                LastAckedPacketAppLimited =
                  (if Ack_AckedPackets AckEvent = [] then False
                   else Ack_IsLargestAckedPacketAppLimited AckEvent);
                b4 = b3\<lparr> BandwidthFilter :=
                           BbrBandwidthFilterOnPacketAcked (BandwidthFilter b3) AckEvent
                             (RoundTripCounter b3) \<rparr>;
                b5 = AckRecoveryUpdate Connection b4 AckEvent NewRoundTrip;
                b6 = fst (BbrCongestionControlUpdateAckAggregation b5 AckEvent);
                b7 = AckProbeBwCycle b6 AckEvent PrevInflightBytes;
                b8 = AckStartupExitDetection b7 NewRoundTrip LastAckedPacketAppLimited;
                b9 = AckPhaseTransitions b8 AckEvent RandomValue;
                b10 = (if BbrState b9 = BBR_STATE_PROBE_RTT
                       then BbrCongestionControlHandleAckInProbeRtt Connection b9 NewRoundTrip
                              (Ack_LargestSentPacketNumber AckEvent) (Ack_TimeNow AckEvent)
                              RandomValue
                       else b9);
                b11 = BbrCongestionControlUpdateCongestionWindow Connection b10
                        (Ack_NumTotalAckedRetransmittableBytes AckEvent)
                        (ucast (Ack_NumRetransmittableBytes AckEvent))
            in (b11, BbrCongestionControlUpdateBlockedState Connection b11
                       PreviousCanSendState)))"

section \<open>BBR: loss, app-limited, reset, initialisation\<close>

definition BbrCongestionControlOnDataLost ::
  "QUIC_CONNECTION \<Rightarrow> QUIC_CONGESTION_CONTROL_BBR \<Rightarrow> QUIC_LOSS_EVENT
     \<Rightarrow> QUIC_CONGESTION_CONTROL_BBR" where
  "BbrCongestionControlOnDataLost Connection Bbr LossEvent =
     (let b1 = Bbr\<lparr> EndOfRecoveryValid := True,
                     EndOfRecovery := Loss_LargestSentPacketNumber LossEvent \<rparr>;
          b2 = b1\<lparr> BytesInFlight :=
                      BytesInFlight b1 - Loss_NumRetransmittableBytes LossEvent \<rparr>;
          RecoveryWindow0 = RecoveryWindow b2;
          MinCongestionWindow' = MinCongestionWindow Connection;
          b3 = (if \<not> BbrCongestionControlInRecovery b2
                then b2\<lparr> RecoveryState := RECOVERY_STATE_CONSERVATIVE,
                          EndOfRoundTripValid := True,
                          EndOfRoundTrip := Loss_LargestSentPacketNumber LossEvent \<rparr>
                else b2);
          RecoveryWindow1 =
            (if \<not> BbrCongestionControlInRecovery b2
             then max (BytesInFlight b2) MinCongestionWindow'
             else RecoveryWindow0)
      in if Loss_PersistentCongestion LossEvent
         then b3\<lparr> RecoveryWindow := MinCongestionWindow' \<rparr>
         else b3\<lparr> RecoveryWindow :=
                     (if RecoveryWindow1 >
                           Loss_NumRetransmittableBytes LossEvent + MinCongestionWindow'
                      then RecoveryWindow1 - Loss_NumRetransmittableBytes LossEvent
                      else MinCongestionWindow') \<rparr>)"

definition BbrCongestionControlOnSpuriousCongestionEvent ::
  "QUIC_CONGESTION_CONTROL_BBR \<Rightarrow> bool" where
  "BbrCongestionControlOnSpuriousCongestionEvent Bbr = False"

definition BbrCongestionControlSetAppLimited ::
  "QUIC_CONNECTION \<Rightarrow> QUIC_CONGESTION_CONTROL_BBR \<Rightarrow> QUIC_CONGESTION_CONTROL_BBR" where
  "BbrCongestionControlSetAppLimited Connection Bbr =
     (if BytesInFlight Bbr > BbrCongestionControlGetCongestionWindow Connection Bbr then Bbr
      else Bbr\<lparr> BandwidthFilter := (BandwidthFilter Bbr)
                 \<lparr> AppLimited := True,
                   AppLimitedExitTarget := LossDetection_LargestSentPacketNumber Connection \<rparr> \<rparr>)"

text \<open>
  \<^verbatim>\<open>Reset\<close> and \<^verbatim>\<open>Initialize\<close> read the wall clock (\<^verbatim>\<open>CxPlatTimeUs64\<close>) for two
  timestamps; the value read is the parameter \<open>TimeUs\<close>. \<^verbatim>\<open>Initialize\<close> also takes the
  capacity of the two filters, \<^verbatim>\<open>kBbrDefaultFilterCapacity\<close>, which is declared outside
  the sources at hand.
\<close>

definition BbrCongestionControlReset ::
  "QUIC_CONNECTION \<Rightarrow> QUIC_CONGESTION_CONTROL_BBR \<Rightarrow> bool \<Rightarrow> u64
     \<Rightarrow> QUIC_CONGESTION_CONTROL_BBR" where
  "BbrCongestionControlReset Connection Bbr FullReset TimeUs =
     (let DatagramPayloadLength = (ucast (DatagramPayloadSize Connection) :: u32);
          Window0 = InitialCongestionWindowPackets Bbr * DatagramPayloadLength
      in Bbr\<lparr> CongestionWindow := Window0,
               InitialCongestionWindow := Window0,
               RecoveryWindow := kDefaultRecoveryCwndInMss * DatagramPayloadLength,
               BytesInFlightMax := Window0 div 2,
               BytesInFlight := (if FullReset then 0 else BytesInFlight Bbr),
               Exemptions := 0,
               RecoveryState := RECOVERY_STATE_NOT_RECOVERY,
               BbrState := BBR_STATE_STARTUP,
               RoundTripCounter := 0,
               CwndGain := kHighGain,
               PacingGain := kHighGain,
               BtlbwFound := False,
               SendQuantum := 0,
               SlowStartupRoundCounter := 0,
               PacingCycleIndex := 0,
               AggregatedAckBytes := 0,
               ExitingQuiescence := False,
               LastEstimatedStartupBandwidth := 0,
               AckAggregationStartTimeValid := False,
               AckAggregationStartTime := TimeUs,
               CycleStart := 0,
               EndOfRecoveryValid := False,
               EndOfRecovery := 0,
               ProbeRttRoundValid := False,
               ProbeRttRound := 0,
               EndOfRoundTripValid := False,
               EndOfRoundTrip := 0,
               ProbeRttEndTimeValid := False,
               ProbeRttEndTime := TimeUs,
               RttSampleExpired := True,
               MinRttTimestampValid := False,
               MinRtt := UINT64_MAX,
               MinRttTimestamp := 0,
               MaxAckHeightFilter := QuicSlidingWindowExtremumReset (MaxAckHeightFilter Bbr),
               BandwidthFilter :=
                 \<lparr> WindowedMaxFilter =
                     QuicSlidingWindowExtremumReset (WindowedMaxFilter (BandwidthFilter Bbr)),
                   AppLimited = False,
                   AppLimitedExitTarget = 0 \<rparr> \<rparr>)"

definition BbrCongestionControlInitialize ::
  "QUIC_CONNECTION \<Rightarrow> QUIC_SETTINGS_INTERNAL \<Rightarrow> nat \<Rightarrow> u64
     \<Rightarrow> QUIC_CONGESTION_CONTROL_BBR" where
  "BbrCongestionControlInitialize Connection Settings kBbrDefaultFilterCapacity TimeUs =
     (let DatagramPayloadLength = (ucast (DatagramPayloadSize Connection) :: u32);
          Window0 = InitialWindowPackets Settings * DatagramPayloadLength
      in \<lparr> InitialCongestionWindowPackets = InitialWindowPackets Settings,
           CongestionWindow = Window0,
           InitialCongestionWindow = Window0,
           RecoveryWindow = kDefaultRecoveryCwndInMss * DatagramPayloadLength,
           BytesInFlightMax = Window0 div 2,
           BytesInFlight = 0,
           Exemptions = 0,
           RecoveryState = RECOVERY_STATE_NOT_RECOVERY,
           BbrState = BBR_STATE_STARTUP,
           RoundTripCounter = 0,
           CwndGain = kHighGain,
           PacingGain = kHighGain,
           BtlbwFound = False,
           SendQuantum = 0,
           SlowStartupRoundCounter = 0,
           PacingCycleIndex = 0,
           AggregatedAckBytes = 0,
           ExitingQuiescence = False,
           LastEstimatedStartupBandwidth = 0,
           CycleStart = 0,
           AckAggregationStartTimeValid = False,
           AckAggregationStartTime = TimeUs,
           EndOfRecoveryValid = False,
           EndOfRecovery = 0,
           ProbeRttRoundValid = False,
           ProbeRttRound = 0,
           EndOfRoundTripValid = False,
           EndOfRoundTrip = 0,
           ProbeRttEndTimeValid = False,
           ProbeRttEndTime = 0,
           RttSampleExpired = True,
           MinRttTimestampValid = False,
           MinRtt = UINT64_MAX,
           MinRttTimestamp = 0,
           MaxAckHeightFilter =
             QuicSlidingWindowExtremumInitialize (ucast kBbrMaxAckHeightFilterLen)
               kBbrDefaultFilterCapacity,
           BandwidthFilter =
             \<lparr> WindowedMaxFilter =
                 QuicSlidingWindowExtremumInitialize (ucast kBbrMaxBandwidthFilterLen)
                   kBbrDefaultFilterCapacity,
               AppLimited = False,
               AppLimitedExitTarget = 0 \<rparr> \<rparr>)"

section \<open>BBR: external events\<close>

text \<open>
  The operations the enclosing connection invokes on the controller, one at a time.
  An acknowledgement carries the random value a ProbeBW entry would draw, a reset the
  wall-clock value it would read.
\<close>

datatype BBR_EVENT =
    OnDataSent u32
  | OnDataInvalidated u32
  | OnDataAcknowledged QUIC_ACK_EVENT u32
  | OnDataLost QUIC_LOSS_EVENT
  | OnSpuriousCongestionEvent
  | SetAppLimited
  | SetExemption u8
  | Reset bool u64

fun ApplyEvent ::
  "QUIC_CONNECTION \<Rightarrow> QUIC_CONGESTION_CONTROL_BBR \<Rightarrow> BBR_EVENT \<Rightarrow> QUIC_CONGESTION_CONTROL_BBR" where
  "ApplyEvent Connection Bbr (OnDataSent n) = BbrCongestionControlOnDataSent Connection Bbr n"
| "ApplyEvent Connection Bbr (OnDataInvalidated n) =
     fst (BbrCongestionControlOnDataInvalidated Connection Bbr n)"
| "ApplyEvent Connection Bbr (OnDataAcknowledged AckEvent RandomValue) =
     fst (BbrCongestionControlOnDataAcknowledged Connection Bbr AckEvent RandomValue)"
| "ApplyEvent Connection Bbr (OnDataLost LossEvent) =
     BbrCongestionControlOnDataLost Connection Bbr LossEvent"
| "ApplyEvent Connection Bbr OnSpuriousCongestionEvent = Bbr"
| "ApplyEvent Connection Bbr SetAppLimited = BbrCongestionControlSetAppLimited Connection Bbr"
| "ApplyEvent Connection Bbr (SetExemption n) = BbrCongestionControlSetExemption Bbr n"
| "ApplyEvent Connection Bbr (Reset FullReset TimeUs) =
     BbrCongestionControlReset Connection Bbr FullReset TimeUs"

text \<open>
  The caller preconditions: the \<^verbatim>\<open>CXPLAT_DBG_ASSERT\<close>s on the byte counts of
  \<^verbatim>\<open>OnDataInvalidated\<close>, \<^verbatim>\<open>OnDataAcknowledged\<close> and \<^verbatim>\<open>OnDataLost\<close>. For a loss
  event the 32-bit sum \<^verbatim>\<open>NumRetransmittableBytes + MinCongestionWindow\<close> of the
  deflation test is moreover required not to wrap around.
\<close>

fun EventPrecondition ::
  "QUIC_CONNECTION \<Rightarrow> QUIC_CONGESTION_CONTROL_BBR \<Rightarrow> BBR_EVENT \<Rightarrow> bool" where
  "EventPrecondition Connection Bbr (OnDataInvalidated n) \<longleftrightarrow> BytesInFlight Bbr \<ge> n"
| "EventPrecondition Connection Bbr (OnDataAcknowledged AckEvent RandomValue) \<longleftrightarrow>
     Ack_IsImplicit AckEvent \<or> BytesInFlight Bbr \<ge> Ack_NumRetransmittableBytes AckEvent"
| "EventPrecondition Connection Bbr (OnDataLost LossEvent) \<longleftrightarrow>
     Loss_NumRetransmittableBytes LossEvent > 0 \<and>
     BytesInFlight Bbr \<ge> Loss_NumRetransmittableBytes LossEvent \<and>
     unat (Loss_NumRetransmittableBytes LossEvent) + unat (MinCongestionWindow Connection)
       < 2 ^ 32"
| "EventPrecondition Connection Bbr _ \<longleftrightarrow> True"

fun RunEvents ::
  "QUIC_CONNECTION \<Rightarrow> QUIC_CONGESTION_CONTROL_BBR \<Rightarrow> BBR_EVENT list
     \<Rightarrow> QUIC_CONGESTION_CONTROL_BBR" where
  "RunEvents Connection Bbr [] = Bbr"
| "RunEvents Connection Bbr (e # es) = RunEvents Connection (ApplyEvent Connection Bbr e) es"

fun EventsRespectPreconditions ::
  "QUIC_CONNECTION \<Rightarrow> QUIC_CONGESTION_CONTROL_BBR \<Rightarrow> BBR_EVENT list \<Rightarrow> bool" where
  "EventsRespectPreconditions Connection Bbr [] \<longleftrightarrow> True"
| "EventsRespectPreconditions Connection Bbr (e # es) \<longleftrightarrow>
     EventPrecondition Connection Bbr e \<and>
     EventsRespectPreconditions Connection (ApplyEvent Connection Bbr e) es"

text \<open>
  The invariant behind the window bound: the stored congestion window, the recovery
  window and the window a reset would install are all at least the minimum window.
\<close>

definition WindowsAboveMinimum ::
  "QUIC_CONNECTION \<Rightarrow> QUIC_CONGESTION_CONTROL_BBR \<Rightarrow> bool" where
  "WindowsAboveMinimum Connection Bbr \<longleftrightarrow>
     MinCongestionWindow Connection \<le> CongestionWindow Bbr \<and>
     MinCongestionWindow Connection \<le> RecoveryWindow Bbr \<and>
     MinCongestionWindow Connection \<le>
       InitialCongestionWindowPackets Bbr * ucast (DatagramPayloadSize Connection)"

section \<open>BBR: the scenarios of the specification\<close>

text \<open>
  The end-to-end scenarios start from \<^verbatim>\<open>Initialize\<close> with an initial window of 10
  packets, a datagram payload of 1200 bytes and pacing enabled. The pacing interval is
  taken as 1000 microseconds and the filter capacity as 3.
\<close>

definition Scenario_Connection :: QUIC_CONNECTION where
  "Scenario_Connection =
     \<lparr> DatagramPayloadSize = 1200, PacingEnabled = True,
       LossDetection_LargestSentPacketNumber = 0, QUIC_SEND_PACING_INTERVAL = 1000 \<rparr>"

definition Scenario_Settings :: QUIC_SETTINGS_INTERNAL where
  "Scenario_Settings = \<lparr> InitialWindowPackets = 10 \<rparr>"

definition Scenario_Initial :: QUIC_CONGESTION_CONTROL_BBR where
  "Scenario_Initial =
     BbrCongestionControlInitialize Scenario_Connection Scenario_Settings 3 0"

text \<open>One packet of 1200 bytes has been sent and nothing acknowledged yet.\<close>

definition Scenario_OneSent :: QUIC_CONGESTION_CONTROL_BBR where
  "Scenario_OneSent = BbrCongestionControlOnDataSent Scenario_Connection Scenario_Initial 1200"

text \<open>
  That packet, sent at 50 ms, is acknowledged at 100 ms by an event that carries no RTT
  sample (\<^verbatim>\<open>MinRttValid = FALSE\<close>).
\<close>

definition Scenario_Packet :: QUIC_SENT_PACKET_METADATA where
  "Scenario_Packet =
     \<lparr> PacketNumber = 1, PacketLength = 1200, SentTime = 50000, TotalBytesSent = 1200,
       Flags_HasLastAckedPacketInfo = False, Flags_IsAppLimited = False,
       LastAcked_SentTime = 0, LastAcked_AckTime = 0, LastAcked_AdjustedAckTime = 0,
       LastAcked_TotalBytesSent = 0, LastAcked_TotalBytesAcked = 0 \<rparr>"

definition Scenario_AckEvent :: QUIC_ACK_EVENT where
  "Scenario_AckEvent =
     \<lparr> Ack_TimeNow = 100000, Ack_LargestAck = 1, Ack_LargestSentPacketNumber = 5,
       Ack_NumTotalAckedRetransmittableBytes = 1200,
       Ack_AckedPackets = [Scenario_Packet],
       Ack_NumRetransmittableBytes = 1200, Ack_MinRtt = 0, Ack_AdjustedAckTime = 100000,
       Ack_IsImplicit = False, Ack_HasLoss = False,
       Ack_IsLargestAckedPacketAppLimited = False, Ack_MinRttValid = False \<rparr>"

definition Scenario_FirstAck :: QUIC_CONGESTION_CONTROL_BBR where
  "Scenario_FirstAck =
     fst (BbrCongestionControlOnDataAcknowledged Scenario_Connection Scenario_OneSent
            Scenario_AckEvent 7)"

text \<open>A bandwidth estimate of 24 MB/s (in \<open>BW_UNIT\<close>s) held at unit pacing gain.\<close>

definition Scenario_HighRate :: QUIC_CONGESTION_CONTROL_BBR where
  "Scenario_HighRate =
     Scenario_Initial
       \<lparr> PacingGain := GAIN_UNIT,
         BandwidthFilter := (BandwidthFilter Scenario_Initial)
           \<lparr> WindowedMaxFilter := (WindowedMaxFilter (BandwidthFilter Scenario_Initial))
               \<lparr> Window := [\<lparr> Value = 192000000, Time = 1 \<rparr>] \<rparr> \<rparr> \<rparr>"

text \<open>
  Scenario S3: in ProbeBW with a congestion window of 100000 bytes and 50000 bytes in
  flight, a loss event reports 10000 lost bytes with largest sent packet number 42.
\<close>

definition Scenario_ProbeBw :: QUIC_CONGESTION_CONTROL_BBR where
  "Scenario_ProbeBw =
     Scenario_Initial
       \<lparr> BbrState := BBR_STATE_PROBE_BW, CongestionWindow := 100000,
         BytesInFlight := 50000 \<rparr>"

definition Scenario_LossEvent :: QUIC_LOSS_EVENT where
  "Scenario_LossEvent =
     \<lparr> Loss_LargestPacketNumberLost = 40, Loss_LargestSentPacketNumber = 42,
       Loss_NumRetransmittableBytes = 10000, Loss_PersistentCongestion = False \<rparr>"

text \<open>
  A short run from \<^verbatim>\<open>Initialize\<close>: two packets are sent, the first is acknowledged,
  the second is declared lost, and the controller is marked app-limited.
\<close>

definition Scenario_SecondLost :: QUIC_LOSS_EVENT where
  "Scenario_SecondLost =
     \<lparr> Loss_LargestPacketNumberLost = 2, Loss_LargestSentPacketNumber = 2,
       Loss_NumRetransmittableBytes = 1200, Loss_PersistentCongestion = False \<rparr>"

definition Scenario_Events :: "BBR_EVENT list" where
  "Scenario_Events =
     [OnDataSent 1200, OnDataSent 1200, OnDataAcknowledged Scenario_AckEvent 7,
      OnDataLost Scenario_SecondLost, SetAppLimited]"

text \<open>Settings with an initial window of a single packet.\<close>

definition Scenario_SmallWindow :: QUIC_SETTINGS_INTERNAL where
  "Scenario_SmallWindow = \<lparr> InitialWindowPackets = 1 \<rparr>"

text \<open>
  The same acknowledgement for a packet that was sent while app-limited.
\<close>

definition Scenario_LimitedPacket :: QUIC_SENT_PACKET_METADATA where
  "Scenario_LimitedPacket = Scenario_Packet\<lparr> Flags_IsAppLimited := True \<rparr>"

definition Scenario_LimitedAckEvent :: QUIC_ACK_EVENT where
  "Scenario_LimitedAckEvent =
     Scenario_AckEvent\<lparr> Ack_AckedPackets := [Scenario_LimitedPacket] \<rparr>"

section \<open>Kalman filter: the predict step\<close>

text \<open>
  C9 as stated: for every filter state, initialised or not, predict adds the process
  noise to the covariance. The source returns before the addition when the filter is
  not initialised; with \<open>p = 1\<close> and \<open>q = 1\<close> (both exact as doubles) the covariance
  stays 1 instead of becoming 2.
\<close>

theorem C9_predict_uninitialised_counterexample:
  "Covariance (QuicKalmanFilterPredict
      \<lparr> State = (0::int), Covariance = 1, ProcessNoise = 1, MeasurementNoise = 1,
        Initialized = False \<rparr>)
   \<noteq> Covariance \<lparr> State = (0::int), Covariance = 1, ProcessNoise = 1, MeasurementNoise = 1,
        Initialized = False \<rparr>
     + ProcessNoise \<lparr> State = (0::int), Covariance = 1, ProcessNoise = 1, MeasurementNoise = 1,
        Initialized = False \<rparr>"
  by (simp add: QuicKalmanFilterPredict_def)

text \<open>
  C9 as amended: on an initialised filter predict adds the process noise \<open>q\<close> to the
  covariance \<open>p\<close> and changes no other field; on a filter that is not initialised it
  changes nothing at all.
\<close>

theorem C9_predict_initialised:
  "QuicKalmanFilterPredict Filter =
     (if Initialized Filter
      then Filter\<lparr> Covariance := Covariance Filter + ProcessNoise Filter \<rparr>
      else Filter)"
  by (simp add: QuicKalmanFilterPredict_def)

theorem C9_predict_initialised_witness:
  "QuicKalmanFilterPredict (QuicKalmanFilterInitialize (5::int) 2 3 7) =
     \<lparr> State = 5, Covariance = 5, ProcessNoise = 3, MeasurementNoise = 7,
       Initialized = True \<rparr>"
  using C9_predict_initialised [of "QuicKalmanFilterInitialize (5::int) 2 3 7"]
  by (simp add: QuicKalmanFilterInitialize_def)

section \<open>Congestion window query\<close>

text \<open>
  C4: the congestion window reported to the connection is a function of the state alone,
  by cases: in ProbeRTT it is the minimum window \<open>4 * datagram_payload_size\<close>, whatever
  the stored window and the recovery state; otherwise, in recovery, it is the smaller of
  the stored window and the recovery window; otherwise it is the stored window.
\<close>

theorem C4_get_congestion_window_cases:
  "BbrCongestionControlGetCongestionWindow Connection Bbr =
     (if BbrState Bbr = BBR_STATE_PROBE_RTT
      then 4 * ucast (DatagramPayloadSize Connection)
      else if RecoveryState Bbr \<noteq> RECOVERY_STATE_NOT_RECOVERY
      then min (CongestionWindow Bbr) (RecoveryWindow Bbr)
      else CongestionWindow Bbr)"
  by (simp add: BbrCongestionControlGetCongestionWindow_def BbrCongestionControlInRecovery_def
        MinCongestionWindow_def kMinCwndInMss_def)

theorem C4_get_congestion_window_cases_witness:
  "BbrCongestionControlGetCongestionWindow Scenario_Connection
     (Scenario_ProbeBw\<lparr> BbrState := BBR_STATE_PROBE_RTT,
                         RecoveryState := RECOVERY_STATE_GROWTH \<rparr>) = 4800"
  using C4_get_congestion_window_cases
          [where Connection = Scenario_Connection
             and Bbr = "Scenario_ProbeBw\<lparr> BbrState := BBR_STATE_PROBE_RTT,
                                           RecoveryState := RECOVERY_STATE_GROWTH \<rparr>"]
  by (simp add: Scenario_Connection_def)

section \<open>Send allowance\<close>

lemma word_room:
  fixes a c x :: u32
  assumes "a < c" and "x \<le> c - a"
  shows "unat a + unat x \<le> unat c"
proof -
  have "unat (c - a) = unat c - unat a"
    using assms(1) by (simp add: unat_sub word_le_less_eq)
  moreover have "unat x \<le> unat (c - a)"
    using assms(2) by (simp add: word_le_nat_alt)
  moreover have "unat a \<le> unat c"
    using assms(1) by (simp add: word_less_nat_alt)
  ultimately show ?thesis by linarith
qed

lemma GetSendAllowance_blocked:
  "BytesInFlight Bbr \<ge> BbrCongestionControlGetCongestionWindow Connection Bbr \<Longrightarrow>
   BbrCongestionControlGetSendAllowance Connection Bbr t v = 0"
  by (simp add: BbrCongestionControlGetSendAllowance_def Let_def)

lemma GetSendAllowance_le_room:
  "BytesInFlight Bbr < BbrCongestionControlGetCongestionWindow Connection Bbr \<Longrightarrow>
   BbrCongestionControlGetSendAllowance Connection Bbr t v
     \<le> BbrCongestionControlGetCongestionWindow Connection Bbr - BytesInFlight Bbr"
  unfolding BbrCongestionControlGetSendAllowance_def Let_def
  by (auto simp: not_less)

text \<open>
  What does hold of the unpaced branch: it is taken when the time since the last send is
  not valid, when pacing is disabled, when the stored minimum RTT equals the 32-bit
  sentinel \<open>UINT32_MAX\<close>, or when it is below the pacing interval.
\<close>

lemma GetSendAllowance_unpaced:
  assumes "BytesInFlight Bbr < BbrCongestionControlGetCongestionWindow Connection Bbr"
      and "\<not> TimeSinceLastSendValid \<or> \<not> PacingEnabled Connection \<or>
           MinRtt Bbr = 4294967295 \<or> MinRtt Bbr < QUIC_SEND_PACING_INTERVAL Connection"
  shows "BbrCongestionControlGetSendAllowance Connection Bbr TimeSinceLastSend
           TimeSinceLastSendValid
         = BbrCongestionControlGetCongestionWindow Connection Bbr - BytesInFlight Bbr"
  using assms
  by (auto simp: BbrCongestionControlGetSendAllowance_def Let_def UINT32_MAX_def not_le)

text \<open>
  C1, evaluated on the code: after \<^verbatim>\<open>Initialize\<close> and one sent packet no RTT sample has
  been recorded, so the minimum RTT still holds the value \<^verbatim>\<open>Initialize\<close> stored,
  \<open>UINT64_MAX\<close>. The sender is not blocked (1200 of 12000 bytes in flight), pacing is
  enabled and the time since the last send is valid. The test for an unset minimum RTT
  compares with \<open>UINT32_MAX\<close> and fails, the paced branch runs, and the allowance is a
  quarter of the window, 3000 bytes, where the claim requires the whole room of
  \<open>12000 - 1200 = 10800\<close> bytes.
\<close>

theorem C1_unset_min_rtt_is_paced:
  "MinRtt Scenario_OneSent = UINT64_MAX \<and>
   BytesInFlight Scenario_OneSent
     < BbrCongestionControlGetCongestionWindow Scenario_Connection Scenario_OneSent \<and>
   BbrCongestionControlGetCongestionWindow Scenario_Connection Scenario_OneSent
     - BytesInFlight Scenario_OneSent = 10800 \<and>
   BbrCongestionControlGetSendAllowance Scenario_Connection Scenario_OneSent 1000 True = 3000"
  by code_simp

theorem C1_unset_min_rtt_is_paced_witness:
  "BbrCongestionControlGetSendAllowance Scenario_Connection Scenario_OneSent 1000 True
     \<noteq> BbrCongestionControlGetCongestionWindow Scenario_Connection Scenario_OneSent
         - BytesInFlight Scenario_OneSent"
  using C1_unset_min_rtt_is_paced by simp

text \<open>
  C10: whatever the arguments, the allowance is 0 when the bytes in flight have reached
  the congestion window, and otherwise at most the room left in it, so that sending the
  allowance keeps the bytes in flight within the congestion window (no wrap-around).
\<close>

theorem C10_send_allowance_within_window:
  "(BytesInFlight Bbr \<ge> BbrCongestionControlGetCongestionWindow Connection Bbr \<longrightarrow>
      BbrCongestionControlGetSendAllowance Connection Bbr TimeSinceLastSend
        TimeSinceLastSendValid = 0) \<and>
   (BytesInFlight Bbr < BbrCongestionControlGetCongestionWindow Connection Bbr \<longrightarrow>
      BbrCongestionControlGetSendAllowance Connection Bbr TimeSinceLastSend
        TimeSinceLastSendValid
        \<le> BbrCongestionControlGetCongestionWindow Connection Bbr - BytesInFlight Bbr \<and>
      unat (BytesInFlight Bbr) +
        unat (BbrCongestionControlGetSendAllowance Connection Bbr TimeSinceLastSend
                TimeSinceLastSendValid)
        \<le> unat (BbrCongestionControlGetCongestionWindow Connection Bbr))"
  using GetSendAllowance_blocked GetSendAllowance_le_room word_room by blast

theorem C10_send_allowance_within_window_witness:
  "BytesInFlight Scenario_OneSent
     < BbrCongestionControlGetCongestionWindow Scenario_Connection Scenario_OneSent \<and>
   unat (BytesInFlight Scenario_OneSent) +
     unat (BbrCongestionControlGetSendAllowance Scenario_Connection Scenario_OneSent 1000 True)
     \<le> unat (BbrCongestionControlGetCongestionWindow Scenario_Connection Scenario_OneSent)"
proof -
  have room: "BytesInFlight Scenario_OneSent
     < BbrCongestionControlGetCongestionWindow Scenario_Connection Scenario_OneSent"
    by code_simp
  with C10_send_allowance_within_window
         [where Bbr = Scenario_OneSent and Connection = Scenario_Connection
            and TimeSinceLastSend = 1000 and TimeSinceLastSendValid = True]
  show ?thesis by blast
qed

section \<open>Target congestion window\<close>

text \<open>
  What does hold of the fallback: it is taken when the bandwidth estimate is 0 or the
  stored minimum RTT equals the 32-bit sentinel, and yields the low 32 bits of
  \<open>gain * initial_cwnd / GAIN_UNIT\<close>.
\<close>

lemma GetTargetCwnd_fallback:
  assumes "BbrCongestionControlGetBandwidth Bbr = 0 \<or> MinRtt Bbr = 4294967295"
  shows "BbrCongestionControlGetTargetCwnd Bbr Gain =
           ucast ((ucast Gain :: u64) * ucast (InitialCongestionWindow Bbr) div 256)"
  using assms
  by (auto simp: BbrCongestionControlGetTargetCwnd_def Let_def UINT32_MAX_def GAIN_UNIT_def)

text \<open>
  C2, evaluated on the code: the first acknowledgement carries no RTT sample, so the
  minimum RTT keeps the value \<open>UINT64_MAX\<close> of \<^verbatim>\<open>Initialize\<close> while the bandwidth
  filter receives its first sample, 192000. The test for an unset minimum RTT compares
  with \<open>UINT32_MAX\<close> and fails, and the target for unit gain is computed from a
  bandwidth-delay product that wrapped around: 3740538557 bytes, where the claim
  requires \<open>256 * 12000 / 256 = 12000\<close>.
\<close>

theorem C2_unset_min_rtt_target_cwnd:
  "MinRtt Scenario_FirstAck = UINT64_MAX \<and>
   BbrCongestionControlGetBandwidth Scenario_FirstAck = 192000 \<and>
   InitialCongestionWindow Scenario_FirstAck = 12000 \<and>
   BbrCongestionControlGetTargetCwnd Scenario_FirstAck GAIN_UNIT = 3740538557"
  by code_simp

theorem C2_unset_min_rtt_target_cwnd_witness:
  "BbrCongestionControlGetTargetCwnd Scenario_FirstAck GAIN_UNIT
     \<noteq> ucast ((ucast GAIN_UNIT :: u64) * ucast (InitialCongestionWindow Scenario_FirstAck)
                div ucast GAIN_UNIT)"
  using C2_unset_min_rtt_target_cwnd by (simp add: GAIN_UNIT_def)

section \<open>Loss events\<close>

text \<open>
  C5 as stated: a loss event outside recovery leaves the recovery window at
  \<open>max(bytes_in_flight, min_cwnd)\<close>. In scenario S3 (50000 bytes in flight, 10000 lost,
  minimum window 4800) the event ends with 40000 bytes in flight and a recovery window
  of 30000: the window set on entry, 40000, is deflated by the lost bytes in the same
  call. It is neither \<open>max(40000, 4800)\<close> nor \<open>max(50000, 4800)\<close>.
\<close>

theorem C5_recovery_window_counterexample:
  "RecoveryState Scenario_ProbeBw = RECOVERY_STATE_NOT_RECOVERY \<and>
   \<not> Loss_PersistentCongestion Scenario_LossEvent \<and>
   RecoveryWindow
     (BbrCongestionControlOnDataLost Scenario_Connection Scenario_ProbeBw Scenario_LossEvent)
     \<noteq> max (BytesInFlight
               (BbrCongestionControlOnDataLost Scenario_Connection Scenario_ProbeBw
                  Scenario_LossEvent))
            (MinCongestionWindow Scenario_Connection) \<and>
   RecoveryWindow
     (BbrCongestionControlOnDataLost Scenario_Connection Scenario_ProbeBw Scenario_LossEvent)
     \<noteq> max (BytesInFlight Scenario_ProbeBw) (MinCongestionWindow Scenario_Connection)"
  by code_simp

text \<open>
  C5 as amended: a loss event without persistent congestion that arrives outside
  recovery sets the recovery state to Conservative, records the event's largest sent
  packet number as the (valid) end of recovery and as the (valid) end of the round trip,
  subtracts the lost bytes from the bytes in flight, and leaves the recovery window at
  the entry value \<open>max(bytes_in_flight - lost, min_cwnd)\<close> deflated by the lost bytes:
  \<open>entry - lost\<close> if \<open>entry > lost + min_cwnd\<close>, and \<open>min_cwnd\<close> otherwise (32-bit
  arithmetic, \<open>bytes_in_flight\<close> as it was before the event).
\<close>

theorem C5_loss_enters_recovery:
  assumes "RecoveryState Bbr = RECOVERY_STATE_NOT_RECOVERY"
      and "\<not> Loss_PersistentCongestion LossEvent"
  shows "let Bbr' = BbrCongestionControlOnDataLost Connection Bbr LossEvent;
             Lost = Loss_NumRetransmittableBytes LossEvent;
             MinCwnd = 4 * ucast (DatagramPayloadSize Connection);
             Entry = max (BytesInFlight Bbr - Lost) MinCwnd
         in RecoveryState Bbr' = RECOVERY_STATE_CONSERVATIVE \<and>
            EndOfRecoveryValid Bbr' \<and>
            EndOfRecovery Bbr' = Loss_LargestSentPacketNumber LossEvent \<and>
            EndOfRoundTripValid Bbr' \<and>
            EndOfRoundTrip Bbr' = Loss_LargestSentPacketNumber LossEvent \<and>
            BytesInFlight Bbr' = BytesInFlight Bbr - Lost \<and>
            RecoveryWindow Bbr' = (if Entry > Lost + MinCwnd then Entry - Lost else MinCwnd)"
  using assms
  by (simp add: BbrCongestionControlOnDataLost_def Let_def BbrCongestionControlInRecovery_def
        MinCongestionWindow_def kMinCwndInMss_def)

theorem C5_loss_enters_recovery_witness:
  "RecoveryState Scenario_ProbeBw = RECOVERY_STATE_NOT_RECOVERY \<and>
   \<not> Loss_PersistentCongestion Scenario_LossEvent \<and>
   RecoveryState
     (BbrCongestionControlOnDataLost Scenario_Connection Scenario_ProbeBw Scenario_LossEvent)
     = RECOVERY_STATE_CONSERVATIVE \<and>
   EndOfRecovery
     (BbrCongestionControlOnDataLost Scenario_Connection Scenario_ProbeBw Scenario_LossEvent)
     = 42 \<and>
   RecoveryWindow
     (BbrCongestionControlOnDataLost Scenario_Connection Scenario_ProbeBw Scenario_LossEvent)
     = 30000"
proof -
  have outside: "RecoveryState Scenario_ProbeBw = RECOVERY_STATE_NOT_RECOVERY"
    by code_simp
  have transient: "\<not> Loss_PersistentCongestion Scenario_LossEvent"
    by code_simp
  have inflight: "BytesInFlight Scenario_ProbeBw = 50000"
    by code_simp
  show ?thesis
    using C5_loss_enters_recovery [OF outside transient, where Connection = Scenario_Connection]
      outside transient
    by (simp add: Let_def inflight Scenario_LossEvent_def Scenario_Connection_def)
qed

section \<open>Send quantum\<close>

text \<open>
  What the recomputation stores, branch by branch: the first two branches are as the
  specification has them; the third multiplies the pacing rate by 1000.
\<close>

lemma SetSendQuantum_value:
  "SendQuantum (BbrCongestionControlSetSendQuantum Connection Bbr) =
    (let PacingRate = BbrCongestionControlGetBandwidth Bbr * ucast (PacingGain Bbr) div 256
     in if PacingRate < 1200 * 1000 * 8 then ucast (DatagramPayloadSize Connection)
        else if PacingRate < 24 * 1000 * 1000 * 8
        then ucast (DatagramPayloadSize Connection) * 2
        else min (PacingRate * 1000 div 8) 65536)"
  by (simp add: BbrCongestionControlSetSendQuantum_def Let_def GAIN_UNIT_def BW_UNIT_def
       kLowPacingRateThresholdBytesPerSecond_def kHighPacingRateThresholdBytesPerSecond_def
       kMilliSecsInSec_def)

text \<open>
  C6, evaluated on the code: at a pacing rate of exactly 24 MB/s (192000000 in
  \<open>BW_UNIT\<close>s, unit pacing gain) one millisecond of sending is
  \<open>192000000 / 1000 / 8 = 24000\<close> bytes, which is the send quantum the claim requires.
  The source multiplies by \<^verbatim>\<open>kMilliSecsInSec\<close> instead of dividing, so the first argument
  of the minimum is 24000000000 and the send quantum is the cap, 65536 bytes.
\<close>

theorem C6_send_quantum_high_rate:
  "BbrCongestionControlGetBandwidth Scenario_HighRate * ucast (PacingGain Scenario_HighRate)
     div ucast GAIN_UNIT = 192000000 \<and>
   min ((192000000 :: u64) div 1000 div BW_UNIT) (64 * 1024) = 24000 \<and>
   SendQuantum (BbrCongestionControlSetSendQuantum Scenario_Connection Scenario_HighRate)
     = 65536"
  by code_simp

theorem C6_send_quantum_high_rate_witness:
  "SendQuantum (BbrCongestionControlSetSendQuantum Scenario_Connection Scenario_HighRate)
     \<noteq> min ((BbrCongestionControlGetBandwidth Scenario_HighRate
                 * ucast (PacingGain Scenario_HighRate) div ucast GAIN_UNIT)
                div 1000 div BW_UNIT) (64 * 1024)"
  using C6_send_quantum_high_rate by simp

section \<open>Implicit acknowledgements\<close>

lemma SetSendQuantum_frame:
  "\<exists>q. BbrCongestionControlSetSendQuantum Connection Bbr = Bbr\<lparr> SendQuantum := q \<rparr>"
  unfolding BbrCongestionControlSetSendQuantum_def Let_def
  by auto

lemma UpdateCongestionWindow_frame:
  "\<exists>q c. BbrCongestionControlUpdateCongestionWindow Connection Bbr TotalBytesAcked AckedBytes =
      Bbr\<lparr> SendQuantum := q, CongestionWindow := c \<rparr>"
proof (cases "BbrState Bbr = BBR_STATE_PROBE_RTT")
  case True
  have "Bbr = Bbr\<lparr> SendQuantum := SendQuantum Bbr, CongestionWindow := CongestionWindow Bbr \<rparr>"
    by simp
  with True show ?thesis
    unfolding BbrCongestionControlUpdateCongestionWindow_def by (metis (full_types))
next
  case False
  obtain q where q: "BbrCongestionControlSetSendQuantum Connection Bbr = Bbr\<lparr> SendQuantum := q \<rparr>"
    using SetSendQuantum_frame by blast
  from False show ?thesis
    unfolding BbrCongestionControlUpdateCongestionWindow_def Let_def q
    by (simp only: if_False) blast
qed

text \<open>
  C8: on an implicit acknowledgement the controller state after the call is the state
  after the congestion-window update alone, which differs from the state before in the
  send quantum and the stored congestion window at most; the returned flag is the
  blocked-state report. In particular the bytes in flight, the minimum RTT and its
  timestamp, the round-trip counter, the recovery state and window, the BBR state, the
  pacing gain, the bandwidth filter and the ack-aggregation filter are unchanged.
\<close>

theorem C8_implicit_ack_frame:
  assumes "Ack_IsImplicit AckEvent"
  shows "let Result = BbrCongestionControlOnDataAcknowledged Connection Bbr AckEvent
                        RandomValue;
             Bbr' = fst Result
         in Bbr' = BbrCongestionControlUpdateCongestionWindow Connection Bbr
                    (Ack_NumTotalAckedRetransmittableBytes AckEvent)
                    (ucast (Ack_NumRetransmittableBytes AckEvent)) \<and>
            snd Result = BbrCongestionControlUpdateBlockedState Connection Bbr'
                           (BbrCongestionControlCanSend Connection Bbr) \<and>
            Bbr' = Bbr\<lparr> SendQuantum := SendQuantum Bbr',
                        CongestionWindow := CongestionWindow Bbr' \<rparr> \<and>
            BytesInFlight Bbr' = BytesInFlight Bbr \<and>
            MinRtt Bbr' = MinRtt Bbr \<and>
            MinRttTimestamp Bbr' = MinRttTimestamp Bbr \<and>
            MinRttTimestampValid Bbr' = MinRttTimestampValid Bbr \<and>
            RoundTripCounter Bbr' = RoundTripCounter Bbr \<and>
            RecoveryState Bbr' = RecoveryState Bbr \<and>
            RecoveryWindow Bbr' = RecoveryWindow Bbr \<and>
            BbrState Bbr' = BbrState Bbr \<and>
            PacingGain Bbr' = PacingGain Bbr \<and>
            BandwidthFilter Bbr' = BandwidthFilter Bbr \<and>
            MaxAckHeightFilter Bbr' = MaxAckHeightFilter Bbr \<and>
            AggregatedAckBytes Bbr' = AggregatedAckBytes Bbr \<and>
            AckAggregationStartTime Bbr' = AckAggregationStartTime Bbr \<and>
            AckAggregationStartTimeValid Bbr' = AckAggregationStartTimeValid Bbr"
proof -
  obtain q c where update:
    "BbrCongestionControlUpdateCongestionWindow Connection Bbr
       (Ack_NumTotalAckedRetransmittableBytes AckEvent)
       (ucast (Ack_NumRetransmittableBytes AckEvent))
     = Bbr\<lparr> SendQuantum := q, CongestionWindow := c \<rparr>"
    using UpdateCongestionWindow_frame by blast
  have result:
    "BbrCongestionControlOnDataAcknowledged Connection Bbr AckEvent RandomValue =
       (Bbr\<lparr> SendQuantum := q, CongestionWindow := c \<rparr>,
        BbrCongestionControlUpdateBlockedState Connection
          (Bbr\<lparr> SendQuantum := q, CongestionWindow := c \<rparr>)
          (BbrCongestionControlCanSend Connection Bbr))"
    using assms unfolding BbrCongestionControlOnDataAcknowledged_def Let_def update by simp
  show ?thesis unfolding Let_def result update by simp
qed

theorem C8_implicit_ack_frame_witness:
  "Ack_IsImplicit (Scenario_AckEvent\<lparr> Ack_IsImplicit := True \<rparr>) \<and>
   BytesInFlight
     (fst (BbrCongestionControlOnDataAcknowledged Scenario_Connection Scenario_OneSent
             (Scenario_AckEvent\<lparr> Ack_IsImplicit := True \<rparr>) 7)) = 1200 \<and>
   CongestionWindow
     (fst (BbrCongestionControlOnDataAcknowledged Scenario_Connection Scenario_OneSent
             (Scenario_AckEvent\<lparr> Ack_IsImplicit := True \<rparr>) 7)) = 13200"
proof -
  have implicit: "Ack_IsImplicit (Scenario_AckEvent\<lparr> Ack_IsImplicit := True \<rparr>)"
    by simp
  have inflight: "BytesInFlight Scenario_OneSent = 1200"
    by code_simp
  have window: "CongestionWindow
      (BbrCongestionControlUpdateCongestionWindow Scenario_Connection Scenario_OneSent
         (Ack_NumTotalAckedRetransmittableBytes Scenario_AckEvent)
         (ucast (Ack_NumRetransmittableBytes Scenario_AckEvent)))
      = 13200"
    by code_simp
  note frame =
    C8_implicit_ack_frame
      [OF implicit, where Connection = Scenario_Connection and Bbr = Scenario_OneSent
         and RandomValue = 7, unfolded Let_def]
  from frame have step:
    "fst (BbrCongestionControlOnDataAcknowledged Scenario_Connection Scenario_OneSent
            (Scenario_AckEvent\<lparr> Ack_IsImplicit := True \<rparr>) 7)
     = BbrCongestionControlUpdateCongestionWindow Scenario_Connection Scenario_OneSent
         (Ack_NumTotalAckedRetransmittableBytes
            (Scenario_AckEvent\<lparr> Ack_IsImplicit := True \<rparr>))
         (ucast (Ack_NumRetransmittableBytes
            (Scenario_AckEvent\<lparr> Ack_IsImplicit := True \<rparr>)))"
    by (rule conjunct1)
  from frame have kept:
    "BytesInFlight
       (fst (BbrCongestionControlOnDataAcknowledged Scenario_Connection Scenario_OneSent
               (Scenario_AckEvent\<lparr> Ack_IsImplicit := True \<rparr>) 7))
     = BytesInFlight Scenario_OneSent"
    by (elim conjE)
  have grown:
    "CongestionWindow
       (fst (BbrCongestionControlOnDataAcknowledged Scenario_Connection Scenario_OneSent
               (Scenario_AckEvent\<lparr> Ack_IsImplicit := True \<rparr>) 7)) = 13200"
    using window by (simp add: step)
  show ?thesis
    using implicit kept inflight grown by simp
qed

section \<open>The congestion window never falls below the minimum\<close>

subsection \<open>Word arithmetic of the window computations\<close>

lemma unat_ucast_payload: "unat (ucast (p :: u16) :: u32) = unat p"
proof -
  have "unat p < 2 ^ LENGTH(16)"
    by (rule unsigned_less)
  then have "unat p < 2 ^ 32"
    by simp
  then show ?thesis
    by (simp add: unsigned_ucast_eq take_bit_nat_eq_self)
qed

lemma payload_bound: "unat (ucast (p :: u16) :: u32) < 65536"
proof -
  have "unat p < 2 ^ LENGTH(16)"
    by (rule unsigned_less)
  then show ?thesis
    by (simp add: unat_ucast_payload)
qed

lemma unat_MinCongestionWindow:
  "unat (MinCongestionWindow Connection) = 4 * unat (DatagramPayloadSize Connection)"
proof -
  let ?m = "ucast (DatagramPayloadSize Connection) :: u32"
  have m: "unat ?m = unat (DatagramPayloadSize Connection)"
    by (rule unat_ucast_payload)
  have "unat (4 :: u32) * unat ?m < 2 ^ LENGTH(32)"
    using payload_bound [of "DatagramPayloadSize Connection"] by simp
  then have "unat (4 * ?m) = unat (4 :: u32) * unat ?m"
    by (simp only: unat_mult_lem)
  then show ?thesis
    by (simp add: MinCongestionWindow_def kMinCwndInMss_def m)
qed

lemma initial_window_above_minimum:
  assumes "4 \<le> unat n"
      and "unat n * unat (DatagramPayloadSize Connection) < 2 ^ 32"
  shows "MinCongestionWindow Connection \<le> n * ucast (DatagramPayloadSize Connection)"
proof -
  let ?m = "ucast (DatagramPayloadSize Connection) :: u32"
  have m: "unat ?m = unat (DatagramPayloadSize Connection)"
    by (rule unat_ucast_payload)
  have "unat n * unat ?m < 2 ^ LENGTH(32)"
    using assms(2) by (simp add: m)
  then have "unat (n * ?m) = unat n * unat ?m"
    by (simp only: unat_mult_lem)
  moreover have "4 * unat (DatagramPayloadSize Connection) \<le> unat n * unat ?m"
    using assms(1) by (simp add: m)
  ultimately show ?thesis
    by (simp add: word_le_nat_alt unat_MinCongestionWindow)
qed

lemma default_recovery_window_above_minimum:
  "MinCongestionWindow Connection
     \<le> kDefaultRecoveryCwndInMss * ucast (DatagramPayloadSize Connection)"
proof -
  have four: "4 \<le> unat kDefaultRecoveryCwndInMss"
    by (simp add: kDefaultRecoveryCwndInMss_def)
  have "unat (ucast (DatagramPayloadSize Connection) :: u32) < 65536"
    by (rule payload_bound)
  then have "unat (DatagramPayloadSize Connection) < 65536"
    by (simp add: unat_ucast_payload)
  then have "unat kDefaultRecoveryCwndInMss * unat (DatagramPayloadSize Connection) < 2 ^ 32"
    by (simp add: kDefaultRecoveryCwndInMss_def)
  with four show ?thesis by (rule initial_window_above_minimum)
qed

lemma deflated_window_above_minimum:
  fixes lost m r :: u32
  assumes "unat lost + unat m < 2 ^ 32" and "lost + m < r"
  shows "m \<le> r - lost"
proof -
  have sum: "unat (lost + m) = unat lost + unat m"
    using assms(1) by (simp add: unat_add_lem [THEN iffD1])
  have less: "unat lost + unat m < unat r"
    using assms(2) sum by (simp add: word_less_nat_alt)
  then have "lost \<le> r"
    by (simp add: word_le_nat_alt)
  then have "unat (r - lost) = unat r - unat lost"
    by (simp add: unat_sub)
  with less show ?thesis
    by (simp add: word_le_nat_alt)
qed

subsection \<open>Operations that leave the windows alone\<close>

lemma windows_BytesInFlight_update [simp]:
  "WindowsAboveMinimum Connection (BytesInFlight_update f Bbr)
     = WindowsAboveMinimum Connection Bbr"
  by (simp add: WindowsAboveMinimum_def)

lemma windows_BandwidthFilter_update [simp]:
  "WindowsAboveMinimum Connection (BandwidthFilter_update f Bbr)
     = WindowsAboveMinimum Connection Bbr"
  by (simp add: WindowsAboveMinimum_def)

lemma windows_OnDataSent [simp]:
  "WindowsAboveMinimum Connection (BbrCongestionControlOnDataSent Connection' Bbr n)
     = WindowsAboveMinimum Connection Bbr"
  by (simp add: WindowsAboveMinimum_def BbrCongestionControlOnDataSent_def Let_def)

lemma windows_OnDataInvalidated [simp]:
  "WindowsAboveMinimum Connection
     (fst (BbrCongestionControlOnDataInvalidated Connection' Bbr n))
     = WindowsAboveMinimum Connection Bbr"
  by (simp add: BbrCongestionControlOnDataInvalidated_def Let_def)

lemma windows_SetAppLimited [simp]:
  "WindowsAboveMinimum Connection (BbrCongestionControlSetAppLimited Connection' Bbr)
     = WindowsAboveMinimum Connection Bbr"
  by (simp add: BbrCongestionControlSetAppLimited_def)

lemma windows_SetExemption [simp]:
  "WindowsAboveMinimum Connection (BbrCongestionControlSetExemption Bbr n)
     = WindowsAboveMinimum Connection Bbr"
  by (simp add: WindowsAboveMinimum_def BbrCongestionControlSetExemption_def)

lemma windows_TransitToProbeBw [simp]:
  "WindowsAboveMinimum Connection (BbrCongestionControlTransitToProbeBw Bbr t r)
     = WindowsAboveMinimum Connection Bbr"
  by (simp add: WindowsAboveMinimum_def BbrCongestionControlTransitToProbeBw_def Let_def)

lemma windows_TransitToStartup [simp]:
  "WindowsAboveMinimum Connection (BbrCongestionControlTransitToStartup Bbr)
     = WindowsAboveMinimum Connection Bbr"
  by (simp add: WindowsAboveMinimum_def BbrCongestionControlTransitToStartup_def)

lemma windows_TransitToProbeRtt [simp]:
  "WindowsAboveMinimum Connection (BbrCongestionControlTransitToProbeRtt Bbr n)
     = WindowsAboveMinimum Connection Bbr"
  by (simp add: WindowsAboveMinimum_def BbrCongestionControlTransitToProbeRtt_def)

lemma windows_TransitToDrain [simp]:
  "WindowsAboveMinimum Connection (BbrCongestionControlTransitToDrain Bbr)
     = WindowsAboveMinimum Connection Bbr"
  by (simp add: WindowsAboveMinimum_def BbrCongestionControlTransitToDrain_def)

lemma windows_AckMinRttUpdate [simp]:
  "WindowsAboveMinimum Connection (AckMinRttUpdate Bbr AckEvent)
     = WindowsAboveMinimum Connection Bbr"
  by (simp add: WindowsAboveMinimum_def AckMinRttUpdate_def Let_def)

lemma windows_AckRoundTripUpdate [simp]:
  "WindowsAboveMinimum Connection (AckRoundTripUpdate Bbr AckEvent)
     = WindowsAboveMinimum Connection Bbr"
  by (simp add: WindowsAboveMinimum_def AckRoundTripUpdate_def)

lemma windows_UpdateAckAggregation [simp]:
  "WindowsAboveMinimum Connection
     (fst (BbrCongestionControlUpdateAckAggregation Bbr AckEvent))
     = WindowsAboveMinimum Connection Bbr"
  by (simp add: WindowsAboveMinimum_def BbrCongestionControlUpdateAckAggregation_def Let_def)

lemma windows_AckProbeBwCycle [simp]:
  "WindowsAboveMinimum Connection (AckProbeBwCycle Bbr AckEvent PrevInflightBytes)
     = WindowsAboveMinimum Connection Bbr"
  by (simp add: WindowsAboveMinimum_def AckProbeBwCycle_def Let_def)

lemma windows_AckStartupExitDetection [simp]:
  "WindowsAboveMinimum Connection (AckStartupExitDetection Bbr NewRoundTrip Limited)
     = WindowsAboveMinimum Connection Bbr"
  by (simp add: WindowsAboveMinimum_def AckStartupExitDetection_def Let_def)

lemma windows_AckPhaseTransitions [simp]:
  "WindowsAboveMinimum Connection (AckPhaseTransitions Bbr AckEvent r)
     = WindowsAboveMinimum Connection Bbr"
proof -
  have "WindowsAboveMinimum Connection (ExitingQuiescence_update f b)
          = WindowsAboveMinimum Connection b" for f b
    by (simp add: WindowsAboveMinimum_def)
  then show ?thesis
    by (simp add: AckPhaseTransitions_def Let_def)
qed

lemma windows_HandleAckInProbeRtt [simp]:
  "WindowsAboveMinimum Connection
     (BbrCongestionControlHandleAckInProbeRtt Connection' Bbr NewRoundTrip n t r)
     = WindowsAboveMinimum Connection Bbr"
proof -
  have plain: "WindowsAboveMinimum Connection
                 (b\<lparr> ProbeRttEndTime := x, ProbeRttEndTimeValid := y, ProbeRttRoundValid := z \<rparr>)
               = WindowsAboveMinimum Connection b" for b x y z
    by (simp add: WindowsAboveMinimum_def)
  have round: "WindowsAboveMinimum Connection
                 (b\<lparr> ProbeRttRoundValid := y, ProbeRttRound := x \<rparr>)
               = WindowsAboveMinimum Connection b" for b x y
    by (simp add: WindowsAboveMinimum_def)
  have stamp: "WindowsAboveMinimum Connection
                 (b\<lparr> MinRttTimestamp := x, MinRttTimestampValid := y \<rparr>)
               = WindowsAboveMinimum Connection b" for b x y
    by (simp add: WindowsAboveMinimum_def)
  show ?thesis
    by (simp add: BbrCongestionControlHandleAckInProbeRtt_def Let_def plain round stamp)
qed

subsection \<open>Operations that write a window\<close>

lemma windows_UpdateRecoveryWindow:
  "WindowsAboveMinimum Connection Bbr \<Longrightarrow>
   WindowsAboveMinimum Connection
     (BbrCongestionControlUpdateRecoveryWindow Connection Bbr BytesAcked)"
  by (simp add: WindowsAboveMinimum_def BbrCongestionControlUpdateRecoveryWindow_def Let_def)

lemma windows_AckRecoveryUpdate:
  assumes "WindowsAboveMinimum Connection Bbr"
  shows "WindowsAboveMinimum Connection
           (AckRecoveryUpdate Connection Bbr AckEvent NewRoundTrip)"
proof -
  have state: "WindowsAboveMinimum Connection (RecoveryState_update f b)
                 = WindowsAboveMinimum Connection b" for f b
    by (simp add: WindowsAboveMinimum_def)
  show ?thesis
    using assms
    by (simp add: AckRecoveryUpdate_def Let_def state windows_UpdateRecoveryWindow)
qed

lemma windows_UpdateCongestionWindow:
  assumes "WindowsAboveMinimum Connection Bbr"
  shows "WindowsAboveMinimum Connection
           (BbrCongestionControlUpdateCongestionWindow Connection Bbr TotalBytesAcked
              AckedBytes)"
proof (cases "BbrState Bbr = BBR_STATE_PROBE_RTT")
  case True
  with assms show ?thesis
    by (simp add: BbrCongestionControlUpdateCongestionWindow_def)
next
  case False
  obtain q where q:
    "BbrCongestionControlSetSendQuantum Connection Bbr = Bbr\<lparr> SendQuantum := q \<rparr>"
    using SetSendQuantum_frame by blast
  from False assms show ?thesis
    unfolding BbrCongestionControlUpdateCongestionWindow_def Let_def q
    by (simp add: WindowsAboveMinimum_def)
qed

lemma windows_OnDataAcknowledged:
  assumes "WindowsAboveMinimum Connection Bbr"
  shows "WindowsAboveMinimum Connection
           (fst (BbrCongestionControlOnDataAcknowledged Connection Bbr AckEvent RandomValue))"
  using assms
  by (simp add: BbrCongestionControlOnDataAcknowledged_def Let_def
        windows_UpdateCongestionWindow windows_AckRecoveryUpdate)

lemma windows_OnDataLost:
  assumes "WindowsAboveMinimum Connection Bbr"
      and "unat (Loss_NumRetransmittableBytes LossEvent)
             + unat (MinCongestionWindow Connection) < 2 ^ 32"
  shows "WindowsAboveMinimum Connection
           (BbrCongestionControlOnDataLost Connection Bbr LossEvent)"
  using assms deflated_window_above_minimum
          [of "Loss_NumRetransmittableBytes LossEvent" "MinCongestionWindow Connection"]
  by (simp add: WindowsAboveMinimum_def BbrCongestionControlOnDataLost_def Let_def)

lemma windows_Reset:
  assumes "WindowsAboveMinimum Connection Bbr"
  shows "WindowsAboveMinimum Connection
           (BbrCongestionControlReset Connection Bbr FullReset TimeUs)"
  using assms default_recovery_window_above_minimum [of Connection]
  by (simp add: WindowsAboveMinimum_def BbrCongestionControlReset_def Let_def)

lemma windows_Initialize:
  assumes "4 \<le> unat (InitialWindowPackets Settings)"
      and "unat (InitialWindowPackets Settings) * unat (DatagramPayloadSize Connection)
             < 2 ^ 32"
  shows "WindowsAboveMinimum Connection
           (BbrCongestionControlInitialize Connection Settings Capacity TimeUs)"
  using initial_window_above_minimum [OF assms]
    default_recovery_window_above_minimum [of Connection]
  by (simp add: WindowsAboveMinimum_def BbrCongestionControlInitialize_def Let_def)

subsection \<open>Every run of events\<close>

lemma windows_ApplyEvent:
  assumes "WindowsAboveMinimum Connection Bbr"
      and "EventPrecondition Connection Bbr e"
  shows "WindowsAboveMinimum Connection (ApplyEvent Connection Bbr e)"
proof (cases e)
  case (OnDataAcknowledged AckEvent RandomValue)
  with assms(1) show ?thesis
    by (simp add: windows_OnDataAcknowledged)
next
  case (OnDataLost LossEvent)
  with assms show ?thesis
    by (simp add: windows_OnDataLost)
next
  case (Reset FullReset TimeUs)
  with assms(1) show ?thesis
    by (simp add: windows_Reset)
qed (use assms(1) in simp_all)

lemma windows_RunEvents:
  "WindowsAboveMinimum Connection Bbr \<Longrightarrow>
   EventsRespectPreconditions Connection Bbr Events \<Longrightarrow>
   WindowsAboveMinimum Connection (RunEvents Connection Bbr Events)"
proof (induction Events arbitrary: Bbr)
  case Nil
  then show ?case by simp
next
  case (Cons e Events)
  from Cons.prems have "WindowsAboveMinimum Connection (ApplyEvent Connection Bbr e)"
    by (simp add: windows_ApplyEvent)
  moreover from Cons.prems
  have "EventsRespectPreconditions Connection (ApplyEvent Connection Bbr e) Events"
    by simp
  ultimately show ?case
    using Cons.IH by simp
qed

lemma windows_GetCongestionWindow:
  "WindowsAboveMinimum Connection Bbr \<Longrightarrow>
   MinCongestionWindow Connection \<le> BbrCongestionControlGetCongestionWindow Connection Bbr"
  by (simp add: WindowsAboveMinimum_def BbrCongestionControlGetCongestionWindow_def)

text \<open>
  C3 as stated: for every settings value the reported congestion window is at least the
  minimum window at all times after \<^verbatim>\<open>Initialize\<close>. With an initial window of one
  packet of 1200 bytes \<^verbatim>\<open>Initialize\<close> stores a congestion window of 1200 bytes, and
  before any event the reported window is 1200, below the minimum of 4800.
\<close>

theorem C3_small_initial_window_counterexample:
  "EventsRespectPreconditions Scenario_Connection
     (BbrCongestionControlInitialize Scenario_Connection Scenario_SmallWindow 3 0) [] \<and>
   BbrCongestionControlGetCongestionWindow Scenario_Connection
     (RunEvents Scenario_Connection
        (BbrCongestionControlInitialize Scenario_Connection Scenario_SmallWindow 3 0) [])
     < 4 * ucast (DatagramPayloadSize Scenario_Connection)"
  by code_simp

text \<open>
  C3 as amended: for every settings value whose initial window is at least 4 packets and
  whose initial window in bytes fits 32 bits, for a datagram payload size that does not
  change, and for every sequence of external events that respects the caller
  preconditions and in whose loss events \<open>lost_bytes + min_cwnd\<close> fits 32 bits, the
  reported congestion window is at least \<open>min_cwnd = 4 * datagram_payload_size\<close> after
  \<^verbatim>\<open>Initialize\<close> and after every event.
\<close>

theorem C3_congestion_window_above_minimum:
  assumes "4 \<le> unat (InitialWindowPackets Settings)"
      and "unat (InitialWindowPackets Settings) * unat (DatagramPayloadSize Connection)
             < 2 ^ 32"
      and "EventsRespectPreconditions Connection
             (BbrCongestionControlInitialize Connection Settings Capacity TimeUs) Events"
  shows "4 * ucast (DatagramPayloadSize Connection)
           \<le> BbrCongestionControlGetCongestionWindow Connection
               (RunEvents Connection
                  (BbrCongestionControlInitialize Connection Settings Capacity TimeUs)
                  Events)"
proof -
  have "WindowsAboveMinimum Connection
          (BbrCongestionControlInitialize Connection Settings Capacity TimeUs)"
    using assms(1,2) by (rule windows_Initialize)
  then have "WindowsAboveMinimum Connection
          (RunEvents Connection
             (BbrCongestionControlInitialize Connection Settings Capacity TimeUs) Events)"
    using assms(3) by (rule windows_RunEvents)
  then have "MinCongestionWindow Connection
           \<le> BbrCongestionControlGetCongestionWindow Connection
               (RunEvents Connection
                  (BbrCongestionControlInitialize Connection Settings Capacity TimeUs)
                  Events)"
    by (rule windows_GetCongestionWindow)
  then show ?thesis
    by (simp add: MinCongestionWindow_def kMinCwndInMss_def)
qed

theorem C3_congestion_window_above_minimum_witness:
  "4 \<le> unat (InitialWindowPackets Scenario_Settings) \<and>
   unat (InitialWindowPackets Scenario_Settings)
     * unat (DatagramPayloadSize Scenario_Connection) < 2 ^ 32 \<and>
   EventsRespectPreconditions Scenario_Connection
     (BbrCongestionControlInitialize Scenario_Connection Scenario_Settings 3 0)
     Scenario_Events \<and>
   4 * ucast (DatagramPayloadSize Scenario_Connection)
     \<le> BbrCongestionControlGetCongestionWindow Scenario_Connection
         (RunEvents Scenario_Connection
            (BbrCongestionControlInitialize Scenario_Connection Scenario_Settings 3 0)
            Scenario_Events)"
proof -
  let ?init = "BbrCongestionControlInitialize Scenario_Connection Scenario_Settings 3 0"
  let ?sent = "BbrCongestionControlOnDataSent Scenario_Connection
                 (BbrCongestionControlOnDataSent Scenario_Connection ?init 1200) 1200"
  let ?acked = "fst (BbrCongestionControlOnDataAcknowledged Scenario_Connection ?sent
                       Scenario_AckEvent 7)"
  have packets: "4 \<le> unat (InitialWindowPackets Scenario_Settings)"
    by (simp add: Scenario_Settings_def)
  have bytes: "unat (InitialWindowPackets Scenario_Settings)
                 * unat (DatagramPayloadSize Scenario_Connection) < 2 ^ 32"
    by (simp add: Scenario_Settings_def Scenario_Connection_def)
  have acked: "Ack_IsImplicit Scenario_AckEvent \<or>
               Ack_NumRetransmittableBytes Scenario_AckEvent \<le> BytesInFlight ?sent"
    by code_simp
  have lost: "0 < Loss_NumRetransmittableBytes Scenario_SecondLost \<and>
              Loss_NumRetransmittableBytes Scenario_SecondLost \<le> BytesInFlight ?acked"
    by code_simp
  have fits: "unat (Loss_NumRetransmittableBytes Scenario_SecondLost)
                + unat (MinCongestionWindow Scenario_Connection) < 2 ^ 32"
    by (simp add: unat_MinCongestionWindow Scenario_SecondLost_def Scenario_Connection_def)
  have respected: "EventsRespectPreconditions Scenario_Connection ?init Scenario_Events"
    unfolding Scenario_Events_def
    using acked lost fits by simp
  from C3_congestion_window_above_minimum [OF packets bytes respected]
    packets bytes respected
  show ?thesis by blast
qed

section \<open>Bandwidth filter admission\<close>

lemma BbrBandwidthFilterLoop_append:
  "BbrBandwidthFilterLoop AckEvent RttCounter (Before @ After) b =
     BbrBandwidthFilterLoop AckEvent RttCounter After
       (BbrBandwidthFilterLoop AckEvent RttCounter Before b)"
  by (induction Before arbitrary: b) simp_all

subsection \<open>What the acknowledgement path does to the round counter and the filter\<close>

lemma round_AckMinRttUpdate [simp]:
  "RoundTripCounter (AckMinRttUpdate Bbr AckEvent) = RoundTripCounter Bbr"
  "BandwidthFilter (AckMinRttUpdate Bbr AckEvent) = BandwidthFilter Bbr"
  "AckIsNewRoundTrip (AckMinRttUpdate Bbr AckEvent) AckEvent' = AckIsNewRoundTrip Bbr AckEvent'"
  by (simp_all add: AckMinRttUpdate_def AckIsNewRoundTrip_def Let_def)

lemma round_AckRoundTripUpdate [simp]:
  "RoundTripCounter (AckRoundTripUpdate Bbr AckEvent) =
     (if AckIsNewRoundTrip Bbr AckEvent then RoundTripCounter Bbr + 1
      else RoundTripCounter Bbr)"
  "BandwidthFilter (AckRoundTripUpdate Bbr AckEvent) = BandwidthFilter Bbr"
  by (simp_all add: AckRoundTripUpdate_def)

lemma round_UpdateRecoveryWindow [simp]:
  "RoundTripCounter (BbrCongestionControlUpdateRecoveryWindow Connection Bbr n)
     = RoundTripCounter Bbr"
  "BandwidthFilter (BbrCongestionControlUpdateRecoveryWindow Connection Bbr n)
     = BandwidthFilter Bbr"
  by (simp_all add: BbrCongestionControlUpdateRecoveryWindow_def Let_def)

lemma round_AckRecoveryUpdate [simp]:
  "RoundTripCounter (AckRecoveryUpdate Connection Bbr AckEvent NewRoundTrip)
     = RoundTripCounter Bbr"
  "BandwidthFilter (AckRecoveryUpdate Connection Bbr AckEvent NewRoundTrip)
     = BandwidthFilter Bbr"
  by (simp_all add: AckRecoveryUpdate_def Let_def)

lemma round_UpdateAckAggregation [simp]:
  "RoundTripCounter (fst (BbrCongestionControlUpdateAckAggregation Bbr AckEvent))
     = RoundTripCounter Bbr"
  "BandwidthFilter (fst (BbrCongestionControlUpdateAckAggregation Bbr AckEvent))
     = BandwidthFilter Bbr"
  by (simp_all add: BbrCongestionControlUpdateAckAggregation_def Let_def)

lemma round_AckProbeBwCycle [simp]:
  "RoundTripCounter (AckProbeBwCycle Bbr AckEvent PrevInflightBytes) = RoundTripCounter Bbr"
  "BandwidthFilter (AckProbeBwCycle Bbr AckEvent PrevInflightBytes) = BandwidthFilter Bbr"
  by (simp_all add: AckProbeBwCycle_def Let_def)

lemma round_AckStartupExitDetection [simp]:
  "RoundTripCounter (AckStartupExitDetection Bbr NewRoundTrip Limited) = RoundTripCounter Bbr"
  "BandwidthFilter (AckStartupExitDetection Bbr NewRoundTrip Limited) = BandwidthFilter Bbr"
  by (simp_all add: AckStartupExitDetection_def Let_def)

lemma round_TransitToProbeBw [simp]:
  "RoundTripCounter (BbrCongestionControlTransitToProbeBw Bbr t r) = RoundTripCounter Bbr"
  "BandwidthFilter (BbrCongestionControlTransitToProbeBw Bbr t r) = BandwidthFilter Bbr"
  by (simp_all add: BbrCongestionControlTransitToProbeBw_def Let_def)

lemma round_TransitToStartup [simp]:
  "RoundTripCounter (BbrCongestionControlTransitToStartup Bbr) = RoundTripCounter Bbr"
  "BandwidthFilter (BbrCongestionControlTransitToStartup Bbr) = BandwidthFilter Bbr"
  by (simp_all add: BbrCongestionControlTransitToStartup_def)

lemma round_TransitToDrain [simp]:
  "RoundTripCounter (BbrCongestionControlTransitToDrain Bbr) = RoundTripCounter Bbr"
  "BandwidthFilter (BbrCongestionControlTransitToDrain Bbr) = BandwidthFilter Bbr"
  by (simp_all add: BbrCongestionControlTransitToDrain_def)

lemma round_TransitToProbeRtt [simp]:
  "RoundTripCounter (BbrCongestionControlTransitToProbeRtt Bbr n) = RoundTripCounter Bbr"
  "WindowedMaxFilter (BandwidthFilter (BbrCongestionControlTransitToProbeRtt Bbr n))
     = WindowedMaxFilter (BandwidthFilter Bbr)"
  by (simp_all add: BbrCongestionControlTransitToProbeRtt_def)

lemma round_AckPhaseTransitions [simp]:
  "RoundTripCounter (AckPhaseTransitions Bbr AckEvent r) = RoundTripCounter Bbr"
  "WindowedMaxFilter (BandwidthFilter (AckPhaseTransitions Bbr AckEvent r))
     = WindowedMaxFilter (BandwidthFilter Bbr)"
  by (simp_all add: AckPhaseTransitions_def Let_def)

lemma round_HandleAckInProbeRtt [simp]:
  "RoundTripCounter
     (BbrCongestionControlHandleAckInProbeRtt Connection Bbr NewRoundTrip n t r)
     = RoundTripCounter Bbr"
  "WindowedMaxFilter (BandwidthFilter
     (BbrCongestionControlHandleAckInProbeRtt Connection Bbr NewRoundTrip n t r))
     = WindowedMaxFilter (BandwidthFilter Bbr)"
  by (simp_all add: BbrCongestionControlHandleAckInProbeRtt_def Let_def)

lemma round_UpdateCongestionWindow [simp]:
  "RoundTripCounter
     (BbrCongestionControlUpdateCongestionWindow Connection Bbr TotalBytesAcked AckedBytes)
     = RoundTripCounter Bbr"
  "BandwidthFilter
     (BbrCongestionControlUpdateCongestionWindow Connection Bbr TotalBytesAcked AckedBytes)
     = BandwidthFilter Bbr"
proof -
  obtain q c where
    "BbrCongestionControlUpdateCongestionWindow Connection Bbr TotalBytesAcked AckedBytes
       = Bbr\<lparr> SendQuantum := q, CongestionWindow := c \<rparr>"
    using UpdateCongestionWindow_frame by blast
  then show
    "RoundTripCounter
       (BbrCongestionControlUpdateCongestionWindow Connection Bbr TotalBytesAcked AckedBytes)
       = RoundTripCounter Bbr"
    "BandwidthFilter
       (BbrCongestionControlUpdateCongestionWindow Connection Bbr TotalBytesAcked AckedBytes)
       = BandwidthFilter Bbr"
    by simp_all
qed

lemma OnDataAcknowledged_round_counter:
  assumes "\<not> Ack_IsImplicit AckEvent"
  shows "RoundTripCounter
           (fst (BbrCongestionControlOnDataAcknowledged Connection Bbr AckEvent RandomValue))
         = (if AckIsNewRoundTrip Bbr AckEvent then RoundTripCounter Bbr + 1
            else RoundTripCounter Bbr)"
proof -
  have "AckIsNewRoundTrip (BytesInFlight_update f b) e = AckIsNewRoundTrip b e" for f b e
    by (simp add: AckIsNewRoundTrip_def)
  with assms show ?thesis
    by (simp add: BbrCongestionControlOnDataAcknowledged_def Let_def)
qed

lemma OnDataAcknowledged_windowed_max:
  assumes "\<not> Ack_IsImplicit AckEvent"
  shows "WindowedMaxFilter (BandwidthFilter
           (fst (BbrCongestionControlOnDataAcknowledged Connection Bbr AckEvent RandomValue)))
         = WindowedMaxFilter
             (BbrBandwidthFilterOnPacketAcked (BandwidthFilter Bbr) AckEvent
                (if AckIsNewRoundTrip Bbr AckEvent then RoundTripCounter Bbr + 1
                 else RoundTripCounter Bbr))"
proof -
  have "AckIsNewRoundTrip (BytesInFlight_update f b) e = AckIsNewRoundTrip b e" for f b e
    by (simp add: AckIsNewRoundTrip_def)
  with assms show ?thesis
    by (simp add: BbrCongestionControlOnDataAcknowledged_def Let_def)
qed

text \<open>
  C7: let an acknowledgement hand the bandwidth filter a list of acked packets, and take
  any packet of that list with non-zero length and a defined delivery rate. When
  \<^verbatim>\<open>BbrBandwidthFilterOnPacketAcked\<close> reaches that packet (the app-limited flag already
  cleared where due, the packets before it already processed), it inserts the sample
  \<open>(delivery_rate, RttCounter)\<close> into the windowed-max filter if the delivery rate is at
  least the filter's current maximum or the packet is not app-limited, and otherwise
  leaves the filter as it found it, before it goes on with the packets after it; so an
  app-limited sample strictly below the current maximum is never admitted. On the
  acknowledgement path (no implicit acknowledgement) the \<open>RttCounter\<close> handed over is the
  controller's round-trip counter, already advanced for a new round, and the windowed
  maximum the controller holds after the event is the one this function computed.
\<close>

theorem C7_bandwidth_filter_admission:
  assumes "Ack_AckedPackets AckEvent = Before @ AckedPacket # After"
      and "PacketLength AckedPacket \<noteq> 0"
      and "BbrPacketDeliveryRate AckEvent AckedPacket = Some DeliveryRate"
  shows
    "let Cleared = (if AppLimited b \<and> AppLimitedExitTarget b < Ack_LargestAck AckEvent
                    then b\<lparr> AppLimited := False \<rparr> else b);
         Current = BbrBandwidthFilterLoop AckEvent RttCounter Before Cleared;
         Inserted = Current\<lparr> WindowedMaxFilter :=
                       QuicSlidingWindowExtremumUpdateMax (WindowedMaxFilter Current)
                         DeliveryRate RttCounter \<rparr>
     in BbrBandwidthFilterOnPacketAcked b AckEvent RttCounter =
          BbrBandwidthFilterLoop AckEvent RttCounter After
            (if DeliveryRate \<ge> BbrBandwidthFilterPreviousMax Current \<or>
                \<not> Flags_IsAppLimited AckedPacket
             then Inserted else Current) \<and>
        (Flags_IsAppLimited AckedPacket \<and>
         DeliveryRate < BbrBandwidthFilterPreviousMax Current \<longrightarrow>
           BbrBandwidthFilterOnPacketAcked b AckEvent RttCounter =
             BbrBandwidthFilterLoop AckEvent RttCounter After Current) \<and>
        (\<not> Ack_IsImplicit AckEvent \<longrightarrow>
           (let Bbr' = fst (BbrCongestionControlOnDataAcknowledged Connection Bbr AckEvent
                              RandomValue)
            in RoundTripCounter Bbr' =
                 (if AckIsNewRoundTrip Bbr AckEvent then RoundTripCounter Bbr + 1
                  else RoundTripCounter Bbr) \<and>
               WindowedMaxFilter (BandwidthFilter Bbr') =
                 WindowedMaxFilter
                   (BbrBandwidthFilterOnPacketAcked (BandwidthFilter Bbr) AckEvent
                      (RoundTripCounter Bbr'))))"
proof -
  let ?cleared = "if AppLimited b \<and> AppLimitedExitTarget b < Ack_LargestAck AckEvent
                  then b\<lparr> AppLimited := False \<rparr> else b"
  let ?current = "BbrBandwidthFilterLoop AckEvent RttCounter Before ?cleared"
  let ?inserted = "?current\<lparr> WindowedMaxFilter :=
                     QuicSlidingWindowExtremumUpdateMax (WindowedMaxFilter ?current)
                       DeliveryRate RttCounter \<rparr>"
  have step: "BbrBandwidthFilterOnOnePacket AckEvent RttCounter AckedPacket ?current =
                (if DeliveryRate \<ge> BbrBandwidthFilterPreviousMax ?current \<or>
                    \<not> Flags_IsAppLimited AckedPacket
                 then ?inserted else ?current)"
    using assms(3) by (simp add: BbrBandwidthFilterOnOnePacket_def Let_def)
  have whole: "BbrBandwidthFilterOnPacketAcked b AckEvent RttCounter =
                 BbrBandwidthFilterLoop AckEvent RttCounter After
                   (BbrBandwidthFilterOnOnePacket AckEvent RttCounter AckedPacket ?current)"
    by (simp add: BbrBandwidthFilterOnPacketAcked_def assms(1) BbrBandwidthFilterLoop_append)
  have admitted: "BbrBandwidthFilterOnPacketAcked b AckEvent RttCounter =
          BbrBandwidthFilterLoop AckEvent RttCounter After
            (if DeliveryRate \<ge> BbrBandwidthFilterPreviousMax ?current \<or>
                \<not> Flags_IsAppLimited AckedPacket
             then ?inserted else ?current)"
    using whole step by simp
  have suppressed: "Flags_IsAppLimited AckedPacket \<and>
         DeliveryRate < BbrBandwidthFilterPreviousMax ?current \<longrightarrow>
           BbrBandwidthFilterOnPacketAcked b AckEvent RttCounter =
             BbrBandwidthFilterLoop AckEvent RttCounter After ?current"
    using admitted by (auto simp: not_le)
  have path: "\<not> Ack_IsImplicit AckEvent \<longrightarrow>
           (let Bbr' = fst (BbrCongestionControlOnDataAcknowledged Connection Bbr AckEvent
                              RandomValue)
            in RoundTripCounter Bbr' =
                 (if AckIsNewRoundTrip Bbr AckEvent then RoundTripCounter Bbr + 1
                  else RoundTripCounter Bbr) \<and>
               WindowedMaxFilter (BandwidthFilter Bbr') =
                 WindowedMaxFilter
                   (BbrBandwidthFilterOnPacketAcked (BandwidthFilter Bbr) AckEvent
                      (RoundTripCounter Bbr')))"
  proof (intro impI)
    assume explicit: "\<not> Ack_IsImplicit AckEvent"
    show "let Bbr' = fst (BbrCongestionControlOnDataAcknowledged Connection Bbr AckEvent
                            RandomValue)
          in RoundTripCounter Bbr' =
               (if AckIsNewRoundTrip Bbr AckEvent then RoundTripCounter Bbr + 1
                else RoundTripCounter Bbr) \<and>
             WindowedMaxFilter (BandwidthFilter Bbr') =
               WindowedMaxFilter
                 (BbrBandwidthFilterOnPacketAcked (BandwidthFilter Bbr) AckEvent
                    (RoundTripCounter Bbr'))"
      unfolding Let_def
      using OnDataAcknowledged_round_counter [OF explicit, of Connection Bbr RandomValue]
        OnDataAcknowledged_windowed_max [OF explicit, of Connection Bbr RandomValue]
      by simp
  qed
  from admitted suppressed path show ?thesis
    unfolding Let_def by (intro conjI)
qed

theorem C7_bandwidth_filter_admission_witness:
  "Ack_AckedPackets Scenario_AckEvent = [] @ Scenario_Packet # [] \<and>
   PacketLength Scenario_Packet \<noteq> 0 \<and>
   BbrPacketDeliveryRate Scenario_AckEvent Scenario_Packet = Some 192000 \<and>
   \<not> Flags_IsAppLimited Scenario_Packet \<and>
   \<not> Ack_IsImplicit Scenario_AckEvent \<and>
   RoundTripCounter Scenario_FirstAck = 1 \<and>
   Window (WindowedMaxFilter (BandwidthFilter Scenario_FirstAck))
     = [\<lparr> Value = 192000, Time = 1 \<rparr>] \<and>
   Ack_AckedPackets Scenario_LimitedAckEvent = [] @ Scenario_LimitedPacket # [] \<and>
   BbrPacketDeliveryRate Scenario_LimitedAckEvent Scenario_LimitedPacket = Some 192000 \<and>
   Flags_IsAppLimited Scenario_LimitedPacket \<and>
   BbrBandwidthFilterPreviousMax (BandwidthFilter Scenario_HighRate) = 192000000 \<and>
   BbrBandwidthFilterOnPacketAcked (BandwidthFilter Scenario_HighRate)
     Scenario_LimitedAckEvent 2 = BandwidthFilter Scenario_HighRate"
proof -
  have packets: "Ack_AckedPackets Scenario_AckEvent = [] @ Scenario_Packet # []"
    by code_simp
  have len: "PacketLength Scenario_Packet \<noteq> 0"
    by code_simp
  have rate: "BbrPacketDeliveryRate Scenario_AckEvent Scenario_Packet = Some 192000"
    by code_simp
  have free: "\<not> Flags_IsAppLimited Scenario_Packet"
    by code_simp
  have explicit: "\<not> Ack_IsImplicit Scenario_AckEvent"
    by code_simp
  have new_round: "AckIsNewRoundTrip Scenario_OneSent Scenario_AckEvent"
    by code_simp
  have round0: "RoundTripCounter Scenario_OneSent = 0"
    by code_simp
  have unlimited: "\<not> AppLimited (BandwidthFilter Scenario_OneSent)"
    by code_simp
  have sample: "Window (QuicSlidingWindowExtremumUpdateMax
                   (WindowedMaxFilter (BandwidthFilter Scenario_OneSent)) 192000 1)
                = [\<lparr> Value = 192000, Time = 1 \<rparr>]"
    by code_simp
  note first =
    C7_bandwidth_filter_admission
      [OF packets len rate, where b = "BandwidthFilter Scenario_OneSent" and RttCounter = 1
         and Connection = Scenario_Connection and Bbr = Scenario_OneSent and RandomValue = 7,
       unfolded Let_def]
  from first explicit have counter: "RoundTripCounter Scenario_FirstAck = 1"
    by (simp add: Scenario_FirstAck_def new_round round0)
  from first explicit have
    "WindowedMaxFilter (BandwidthFilter Scenario_FirstAck) =
       WindowedMaxFilter
         (BbrBandwidthFilterOnPacketAcked (BandwidthFilter Scenario_OneSent)
            Scenario_AckEvent 1)"
    by (simp add: Scenario_FirstAck_def new_round round0)
  moreover from first have
    "BbrBandwidthFilterOnPacketAcked (BandwidthFilter Scenario_OneSent) Scenario_AckEvent 1 =
       (BandwidthFilter Scenario_OneSent)
         \<lparr> WindowedMaxFilter :=
             QuicSlidingWindowExtremumUpdateMax
               (WindowedMaxFilter (BandwidthFilter Scenario_OneSent)) 192000 1 \<rparr>"
    by (simp add: unlimited free)
  ultimately have inserted:
    "Window (WindowedMaxFilter (BandwidthFilter Scenario_FirstAck))
       = [\<lparr> Value = 192000, Time = 1 \<rparr>]"
    by (simp add: sample)
  have packets': "Ack_AckedPackets Scenario_LimitedAckEvent = [] @ Scenario_LimitedPacket # []"
    by code_simp
  have len': "PacketLength Scenario_LimitedPacket \<noteq> 0"
    by code_simp
  have rate': "BbrPacketDeliveryRate Scenario_LimitedAckEvent Scenario_LimitedPacket
                 = Some 192000"
    by code_simp
  have limited: "Flags_IsAppLimited Scenario_LimitedPacket"
    by code_simp
  have unlimited': "\<not> AppLimited (BandwidthFilter Scenario_HighRate)"
    by code_simp
  have prev: "BbrBandwidthFilterPreviousMax (BandwidthFilter Scenario_HighRate) = 192000000"
    by code_simp
  note second =
    C7_bandwidth_filter_admission
      [OF packets' len' rate', where b = "BandwidthFilter Scenario_HighRate"
         and RttCounter = 2, unfolded Let_def]
  from second have suppressed:
    "BbrBandwidthFilterOnPacketAcked (BandwidthFilter Scenario_HighRate)
       Scenario_LimitedAckEvent 2 = BandwidthFilter Scenario_HighRate"
    by (simp add: unlimited' limited prev)
  from packets len rate free explicit counter inserted packets' rate' limited prev suppressed
  show ?thesis by (intro conjI)
qed

end
